theory Spec2Isabelle
  imports Main "HOL-Library.AList" "HOL-Library.Char_ord" "HOL-Library.List_Lexorder"
begin

section \<open>Values, the standard library and the outside world\<close>

text \<open>
  The pipeline of \<^verbatim>\<open>rss_daily_pipeline.py\<close> is embedded function by function.
  Python strings are \<open>string\<close>; \<open>None\<close> is \<open>None\<close> of an option type; a \<open>dict\<close> with
  string keys is an association list in insertion order with distinct keys
  (\<open>d.get(k)\<close> is \<open>map_of\<close>, \<open>d[k] = v\<close> is \<open>AList.update\<close>). What \<^verbatim>\<open>json.loads\<close>
  returns is a value of \<open>json\<close>; \<open>JNull\<close> is Python's \<open>None\<close>.
\<close>

type_synonym 'v pydict = "(string \<times> 'v) list"

datatype json =
    JNull
  | JBool bool
  | JNum int
  | JStr string
  | JArr "json list"
  | JObj "(string \<times> json) list"

subsection \<open>What the code reads from a page and from a feed\<close>

text \<open>
  \<^verbatim>\<open>BeautifulSoup\<close> and \<^verbatim>\<open>ElementTree\<close> are not part of the repository. A parsed page
  and a parsed feed are represented by the results of the look-ups that the code makes
  on them, one field per look-up.
\<close>

record page =
  ld_scripts :: "json option list"
    \<comment> \<open>for each \<^verbatim>\<open>script\<close> of type \<^verbatim>\<open>application/ld+json\<close>, in document order:
        \<^verbatim>\<open>json.loads(tag.string or "")\<close>, \<open>None\<close> when it raises\<close>
  meta_content :: "string \<Rightarrow> string option"
    \<comment> \<open>\<^verbatim>\<open>el.get("content")\<close> of the first \<^verbatim>\<open>meta\<close> with the given name; \<open>None\<close> without
        such an element or attribute\<close>
  abstract_by_id :: "string option"
    \<comment> \<open>\<^verbatim>\<open>get_text(" ")\<close> of the first \<^verbatim>\<open>section\<close>, \<^verbatim>\<open>div\<close> or \<^verbatim>\<open>p\<close> whose id contains
        \<^verbatim>\<open>abstract\<close>; \<open>None\<close> without one\<close>
  abstract_by_class :: "string option"
    \<comment> \<open>the same for the first \<^verbatim>\<open>section\<close> or \<^verbatim>\<open>div\<close> with such a class\<close>
  og_description :: "string option"
    \<comment> \<open>\<^verbatim>\<open>content\<close> of the first \<^verbatim>\<open>meta\<close> with property \<^verbatim>\<open>og:description\<close>\<close>

text \<open>
  The children of a feed item. A field holds \<^verbatim>\<open>node.text\<close> of the child found, \<open>None\<close>
  when there is no such child or its text is \<open>None\<close>; \<open>rdf_about\<close> holds an attribute.
\<close>

record rdf_item =
  rdf_title :: "string option"
  rdf_dc_title :: "string option"
  rdf_link :: "string option"
  rdf_about :: "string option"
  rdf_dc_date :: "string option"
  rdf_prism_doi :: "string option"
  rdf_prism_publicationName :: "string option"
  rdf_dc_identifier :: "string option"

record rss2_item =
  r_title :: "string option"
  r_dc_title :: "string option"
  r_link :: "string option"
  r_guid :: "string option"
  r_pubDate :: "string option"
  r_dc_date :: "string option"
  r_description :: "string option"

text \<open>
  A \<^verbatim>\<open>link\<close> element of an Atom entry: the number of its children (an element without
  children is falsy in \<^verbatim>\<open>a or b\<close>) and its \<^verbatim>\<open>href\<close>.
\<close>

record link_el =
  l_children :: nat
  l_href :: "string option"

record atom_entry =
  at_atom_title :: "string option"
  at_title :: "string option"
  at_alternate_link :: "link_el option"
    \<comment> \<open>\<^verbatim>\<open>entry.find('atom:link[@rel="alternate"]', NS)\<close>\<close>
  at_link :: "link_el option"
    \<comment> \<open>\<^verbatim>\<open>entry.find('link')\<close>\<close>
  at_atom_id :: "string option"
  at_id :: "string option"
  at_atom_published :: "string option"
  at_published :: "string option"
  at_atom_updated :: "string option"
  at_updated :: "string option"

record feed_xml =
  root_tag :: string
    \<comment> \<open>the tag of the root without its namespace\<close>
  has_rss_channel :: bool
    \<comment> \<open>\<^verbatim>\<open>root.find('rss:channel', NS) is not None\<close>\<close>
  rss_items :: "rdf_item list"
    \<comment> \<open>\<^verbatim>\<open>root.findall('rss:item', NS)\<close>\<close>
  channel :: "rss2_item list option"
    \<comment> \<open>\<^verbatim>\<open>root.find('channel')\<close>: \<open>None\<close>, or its \<^verbatim>\<open>item\<close> children\<close>
  has_atom_feed :: bool
    \<comment> \<open>\<^verbatim>\<open>root.find('atom:feed', NS) is not None\<close>\<close>
  atom_entries :: "atom_entry list"
    \<comment> \<open>\<^verbatim>\<open>root.findall('atom:entry', NS)\<close>\<close>
  plain_entries :: "atom_entry list"
    \<comment> \<open>\<^verbatim>\<open>root.findall('entry')\<close>\<close>

text \<open>What \<^verbatim>\<open>requests.get\<close> gives: an exception, or a response.\<close>

datatype http_result =
    HttpExc
  | HttpResp int "string \<rightharpoonup> string" string

text \<open>The exceptions of the model.\<close>

datatype py_error =
    TypeError
  | AttributeError
  | IndexError
  | ParseError
  | RequestException
  | KeyError
  | HTTPError
  | SystemExit

text \<open>
  Functions of Python's libraries whose code is not part of the repository are
  the fields of a record \<open>pylib\<close>, passed as the first argument \<open>L\<close>.
\<close>

record pylib =
  sha256 :: "string \<Rightarrow> string"
    \<comment> \<open>\<^verbatim>\<open>hashlib.sha256(text.encode("utf-8", "ignore")).hexdigest()\<close>\<close>
  str_lower :: "string \<Rightarrow> string"
    \<comment> \<open>\<^verbatim>\<open>str.lower\<close>\<close>
  html_unescape :: "string \<Rightarrow> string"
    \<comment> \<open>\<^verbatim>\<open>html.unescape\<close>\<close>
  json_str :: "string \<Rightarrow> string"
    \<comment> \<open>the JSON literal that \<^verbatim>\<open>json.dumps\<close> writes for a string\<close>
  json_dumps :: "json \<Rightarrow> string"
    \<comment> \<open>\<^verbatim>\<open>json.dumps(v, ensure_ascii=False)\<close>\<close>
  re_doi_feed :: "string \<Rightarrow> string option"
    \<comment> \<open>group 1 of \<^verbatim>\<open>re.search(r'\b(10\.\d{4,9}/[^\s<>"\']+)', s)\<close>, \<open>None\<close> without a match\<close>
  re_doi_ld :: "string \<Rightarrow> string option"
    \<comment> \<open>group 0 of \<^verbatim>\<open>re.search(r'10\.\d{4,9}/\S+', s)\<close>, \<open>None\<close> without a match\<close>
  soupify :: "string \<Rightarrow> page"
    \<comment> \<open>\<^verbatim>\<open>BeautifulSoup(html_text, "lxml")\<close>\<close>
  xml_root :: "string \<Rightarrow> feed_xml option"
    \<comment> \<open>\<^verbatim>\<open>ElementTree.fromstring\<close>; \<open>None\<close> when it raises \<^verbatim>\<open>ParseError\<close>\<close>

subsection \<open>Truthiness and dictionaries\<close>

fun truthy :: "string option \<Rightarrow> bool" where
  "truthy None = False"
| "truthy (Some s) = (s \<noteq> [])"

text \<open>\<^verbatim>\<open>a or b\<close> on optional strings.\<close>

definition py_or :: "string option \<Rightarrow> string option \<Rightarrow> string option" where
  "py_or a b = (if truthy a then a else b)"

text \<open>\<^verbatim>\<open>d.get(k)\<close> for a dictionary whose values are strings or \<open>None\<close>.\<close>

definition dict_get :: "string option pydict \<Rightarrow> string \<Rightarrow> string option" where
  "dict_get d k = (case map_of d k of None \<Rightarrow> None | Some v \<Rightarrow> v)"

text \<open>\<^verbatim>\<open>d.setdefault(k, v)\<close>: stores \<open>v\<close> only when the key \<open>k\<close> is not in \<open>d\<close>.\<close>

definition setdefault :: "'v pydict \<Rightarrow> string \<Rightarrow> 'v \<Rightarrow> 'v pydict" where
  "setdefault d k v = (case map_of d k of None \<Rightarrow> d @ [(k, v)] | Some _ \<Rightarrow> d)"

text \<open>\<^verbatim>\<open>sep.join(xs)\<close>.\<close>

fun join :: "string \<Rightarrow> string list \<Rightarrow> string" where
  "join sep [] = []"
| "join sep [x] = x"
| "join sep (x # y # ys) = x @ sep @ join sep (y # ys)"

subsection \<open>The database\<close>

text \<open>
  The three tables of \<^verbatim>\<open>SCHEMA\<close>. Each has a text primary key, so a table is a map
  from the key to the other columns; a nullable column is an option.
\<close>

record feed_row =
  f_etag :: "string option"
  f_last_modified :: "string option"
  f_last_checked_at :: "string option"

record seen_row =
  s_feed_url :: string
  s_article_url :: "string option"
  s_doi :: "string option"
  s_pub_date :: "string option"
  s_first_seen_at :: "string option"

record article_row =
  a_feed_url :: string
  a_journal :: "string option"
  a_title_en :: "string option"
  a_title_cn :: "string option"
  a_type :: "string option"
  a_pub_date :: "string option"
  a_doi :: "string option"
  a_article_url :: "string option"
  a_abstract_en :: "string option"
  a_abstract_cn :: "string option"
  a_raw_jsonld :: "string option"
  a_fetched_at :: "string option"
  a_last_updated_at :: "string option"

text \<open>
  The state a run works on: the tables behind \<^verbatim>\<open>conn\<close>, and the outside world \<open>'w\<close>
  (clock, network), which every reading of the clock and every request may change.
  \<open>article_log\<close> is a history variable: the uids for which the article step of
  \<^verbatim>\<open>run_pipeline\<close> was started, oldest first.
\<close>

record 'w state =
  feeds :: "string \<rightharpoonup> feed_row"
  seen :: "string \<rightharpoonup> seen_row"
  articles :: "string \<rightharpoonup> article_row"
  world :: 'w
  article_log :: "string list"

text \<open>\<^verbatim>\<open>now_ts()\<close> reads the clock of the world.\<close>

record 'w clock =
  now_ts :: "'w \<Rightarrow> string \<times> 'w"

text \<open>A clock for examples: the world is the list of the readings still to come.\<close>

definition list_clock :: "string list clock" where
  "list_clock = \<lparr>now_ts = (\<lambda>w. case w of [] \<Rightarrow> ([], []) | t # ts \<Rightarrow> (t, ts))\<rparr>"

text \<open>
  A library for examples. It agrees with Python on the strings the examples use: ASCII
  letters for \<open>str_lower\<close>, strings without \<open>&\<close> for \<open>html_unescape\<close>, strings of
  printable ASCII without quote or backslash for \<open>json_str\<close>, strings without a DOI for
  the two searches. Its \<open>sha256\<close> and \<open>json_dumps\<close> are stand-ins of the right length and
  shape; no example depends on their values.
\<close>

definition ascii_lower :: "char \<Rightarrow> char" where
  "ascii_lower c =
     (case map_of (zip ''ABCDEFGHIJKLMNOPQRSTUVWXYZ'' ''abcdefghijklmnopqrstuvwxyz'') c of
        None \<Rightarrow> c
      | Some l \<Rightarrow> l)"

definition example_lib :: pylib where
  "example_lib =
     \<lparr>sha256 = (\<lambda>s. replicate 64 CHR ''0''),
      str_lower = map ascii_lower,
      html_unescape = (\<lambda>s. s),
      json_str = (\<lambda>s. [CHR 0x22] @ s @ [CHR 0x22]),
      json_dumps = (\<lambda>v. ''{}''),
      re_doi_feed = (\<lambda>s. None),
      re_doi_ld = (\<lambda>s. None),
      soupify = (\<lambda>h. \<lparr>ld_scripts = [], meta_content = (\<lambda>n. None), abstract_by_id = None,
                        abstract_by_class = None, og_description = None\<rparr>),
      xml_root = (\<lambda>b. None)\<rparr>"

section \<open>Identity\<close>

text \<open>
  \<^verbatim>\<open>json.dumps(item, sort_keys=True)\<close> for an item, a dictionary from strings to strings
  or \<open>None\<close>: the pairs sorted by key, separated by \<open>", "\<close>, key and value by \<open>": "\<close>.
\<close>

definition json_value :: "pylib \<Rightarrow> string option \<Rightarrow> string" where
  "json_value L v = (case v of None \<Rightarrow> ''null'' | Some s \<Rightarrow> json_str L s)"

definition json_pair :: "pylib \<Rightarrow> string \<times> string option \<Rightarrow> string" where
  "json_pair L kv = json_str L (fst kv) @ '': '' @ json_value L (snd kv)"

definition json_dumps_sorted :: "pylib \<Rightarrow> string option pydict \<Rightarrow> string" where
  "json_dumps_sorted L d = ''{'' @ join '', '' (map (json_pair L) (sort_key fst d)) @ ''}''"

definition compute_uid :: "pylib \<Rightarrow> string option pydict \<Rightarrow> string" where
  "compute_uid L item =
     (let doi = dict_get item ''doi'' in
      if truthy doi then ''doi:'' @ str_lower L (the doi)
      else if truthy (dict_get item ''id_like'') then ''id:'' @ the (dict_get item ''id_like'')
      else if truthy (dict_get item ''link'')
        then ''linkhash:'' @ take 16 (sha256 L (the (dict_get item ''link'')))
      else ''hash:'' @ take 16 (sha256 L (json_dumps_sorted L item)))"

section \<open>The seen table and the article table\<close>

text \<open>
  \<^verbatim>\<open>check_new_items\<close>: the items whose uid has no row in \<open>seen\<close>, each with its uid stored
  under the key \<open>_uid\<close>. The table is only read.
\<close>

fun check_new_items ::
  "pylib \<Rightarrow> 'w state \<Rightarrow> string \<Rightarrow> string option pydict list \<Rightarrow> string option pydict list" where
  "check_new_items L s feed_url [] = []"
| "check_new_items L s feed_url (it # feed_items) =
     (let uid = compute_uid L it in
      if seen s uid = None
      then AList.update ''_uid'' (Some uid) it # check_new_items L s feed_url feed_items
      else check_new_items L s feed_url feed_items)"

text \<open>\<^verbatim>\<open>INSERT OR IGNORE\<close>: a row whose key is in the table already is not inserted.\<close>

definition insert_or_ignore :: "(string \<rightharpoonup> 'r) \<Rightarrow> string \<Rightarrow> 'r \<Rightarrow> (string \<rightharpoonup> 'r)" where
  "insert_or_ignore tbl k row = (case tbl k of None \<Rightarrow> tbl(k \<mapsto> row) | Some _ \<Rightarrow> tbl)"

definition mark_seen ::
  "('w, 'm) clock_scheme \<Rightarrow> 'w state \<Rightarrow> string \<Rightarrow> string \<Rightarrow> string \<Rightarrow> string option
     \<Rightarrow> string option \<Rightarrow> 'w state" where
  "mark_seen C s uid feed_url article_url doi pub_date =
     (let (t, w) = now_ts C (world s);
          row = \<lparr>s_feed_url = feed_url, s_article_url = Some article_url, s_doi = doi,
                 s_pub_date = pub_date, s_first_seen_at = Some t\<rparr>
      in s\<lparr>seen := insert_or_ignore (seen s) uid row, world := w\<rparr>)"

text \<open>
  \<^verbatim>\<open>upsert_article\<close>: \<^verbatim>\<open>INSERT ... ON CONFLICT(uid) DO UPDATE SET\<close> of the listed
  columns; \<open>feed_url\<close> and \<open>fetched_at\<close> are not in the list. The clock is read twice,
  for \<open>fetched_at\<close> first.
\<close>

definition on_conflict_update :: "article_row \<Rightarrow> article_row \<Rightarrow> article_row" where
  "on_conflict_update old excluded =
     old\<lparr>a_journal := a_journal excluded,
         a_title_en := a_title_en excluded,
         a_title_cn := a_title_cn excluded,
         a_type := a_type excluded,
         a_pub_date := a_pub_date excluded,
         a_doi := a_doi excluded,
         a_article_url := a_article_url excluded,
         a_abstract_en := a_abstract_en excluded,
         a_abstract_cn := a_abstract_cn excluded,
         a_raw_jsonld := a_raw_jsonld excluded,
         a_last_updated_at := a_last_updated_at excluded\<rparr>"

text \<open>\<^verbatim>\<open>json.dumps(raw_jsonld, ensure_ascii=False) if raw_jsonld else None\<close>; an empty
  dictionary is falsy.\<close>

definition raw_jsonld_text :: "pylib \<Rightarrow> (string \<times> json) list option \<Rightarrow> string option" where
  "raw_jsonld_text L raw_jsonld =
     (case raw_jsonld of
        None \<Rightarrow> None
      | Some obj \<Rightarrow> if obj = [] then None else Some (json_dumps L (JObj obj)))"

definition upsert_article ::
  "pylib \<Rightarrow> ('w, 'm) clock_scheme \<Rightarrow> 'w state \<Rightarrow> string \<Rightarrow> string \<Rightarrow> string option pydict
     \<Rightarrow> (string \<times> json) list option \<Rightarrow> 'w state" where
  "upsert_article L C s uid feed_url flds raw_jsonld =
     (let (t1, w1) = now_ts C (world s);
          (t2, w2) = now_ts C w1;
          row = \<lparr>a_feed_url = feed_url,
                 a_journal = dict_get flds ''journal'',
                 a_title_en = dict_get flds ''title_en'',
                 a_title_cn = dict_get flds ''title_cn'',
                 a_type = dict_get flds ''type'',
                 a_pub_date = dict_get flds ''pub_date'',
                 a_doi = dict_get flds ''doi'',
                 a_article_url = dict_get flds ''article_url'',
                 a_abstract_en = dict_get flds ''abstract_en'',
                 a_abstract_cn = dict_get flds ''abstract_cn'',
                 a_raw_jsonld = raw_jsonld_text L raw_jsonld,
                 a_fetched_at = Some t1,
                 a_last_updated_at = Some t2\<rparr>
      in s\<lparr>articles :=
             (case articles s uid of
                None \<Rightarrow> (articles s)(uid \<mapsto> row)
              | Some old \<Rightarrow> (articles s)(uid \<mapsto> on_conflict_update old row)),
           world := w2\<rparr>)"

section \<open>Text\<close>

text \<open>
  A \<open>char\<close> stands for a code point below 256. The white space of \<^verbatim>\<open>\s\<close> and of
  \<^verbatim>\<open>str.strip()\<close> in that range: tab to carriage return, the four separators
  \<open>0x1C\<close> to \<open>0x1F\<close>, the space, \<open>0x85\<close> and \<open>0xA0\<close>.
\<close>

definition is_space :: "char \<Rightarrow> bool" where
  "is_space c =
     (let n = (of_char c :: nat) in
      (9 \<le> n \<and> n \<le> 13) \<or> (28 \<le> n \<and> n \<le> 32) \<or> n = 133 \<or> n = 160)"

text \<open>\<^verbatim>\<open>s.strip()\<close>.\<close>

definition strip :: "string \<Rightarrow> string" where
  "strip s = rev (dropWhile is_space (rev (dropWhile is_space s)))"

text \<open>\<^verbatim>\<open>s.rstrip(chars)\<close>.\<close>

definition rstrip_chars :: "string \<Rightarrow> string \<Rightarrow> string" where
  "rstrip_chars chars s = rev (dropWhile (\<lambda>c. c \<in> set chars) (rev s))"

text \<open>\<^verbatim>\<open>re.sub(r'\s+', ' ', s)\<close>: every maximal run of white space becomes one space.\<close>

function collapse_ws :: "string \<Rightarrow> string" where
  "collapse_ws [] = []"
| "collapse_ws (c # cs) =
     (if is_space c then CHR '' '' # collapse_ws (dropWhile is_space cs)
      else c # collapse_ws cs)"
  by pat_completeness auto
termination
  by (relation "measure length") (auto simp: length_dropWhile_le less_Suc_eq_le)

definition clean_text :: "pylib \<Rightarrow> string option \<Rightarrow> string option" where
  "clean_text L s =
     (case s of
        None \<Rightarrow> None
      | Some t \<Rightarrow> Some (strip (collapse_ws (html_unescape L t))))"

text \<open>\<^verbatim>\<open>p in s\<close> for strings.\<close>

fun contains :: "string \<Rightarrow> string \<Rightarrow> bool" where
  "contains p [] = (p = [])"
| "contains p (c # cs) = (take (length p) (c # cs) = p \<or> contains p cs)"

section \<open>Feed parsing\<close>

text \<open>\<^verbatim>\<open>xml_text\<close>, applied to \<^verbatim>\<open>node.text\<close> of the node found (\<open>None\<close> without a node).\<close>

definition xml_text :: "string option \<Rightarrow> string option" where
  "xml_text t =
     (case t of
        None \<Rightarrow> None
      | Some s \<Rightarrow> if s = [] then None else Some (strip s))"

fun guess_doi :: "pylib \<Rightarrow> string option list \<Rightarrow> string option" where
  "guess_doi L [] = None"
| "guess_doi L (s # candidates) =
     (if \<not> truthy s then guess_doi L candidates
      else case re_doi_feed L (the s) of
             Some g \<Rightarrow> Some (rstrip_chars '').,;'' g)
           | None \<Rightarrow> guess_doi L candidates)"

text \<open>
  \<^verbatim>\<open>add_item\<close> of \<^verbatim>\<open>parse_feed\<close>: four of the six fields go through \<^verbatim>\<open>clean_text\<close>,
  \<open>link\<close> and \<open>id_like\<close> are stored as they are. The result is the item appended to
  \<^verbatim>\<open>items\<close>.
\<close>

definition add_item :: "pylib \<Rightarrow> string option pydict \<Rightarrow> string option pydict" where
  "add_item L d0 =
     (let d1 = AList.update ''title'' (clean_text L (dict_get d0 ''title'')) d0;
          d2 = AList.update ''link'' (dict_get d1 ''link'') d1;
          d3 = AList.update ''id_like'' (dict_get d2 ''id_like'') d2;
          d4 = AList.update ''pub_date'' (clean_text L (dict_get d3 ''pub_date'')) d3;
          d5 = AList.update ''doi'' (clean_text L (dict_get d4 ''doi'')) d4;
          d6 = AList.update ''journal'' (clean_text L (dict_get d5 ''journal'')) d5
      in d6)"

text \<open>The dictionary built in the loop of each dialect.\<close>

definition rdf_fields :: "pylib \<Rightarrow> rdf_item \<Rightarrow> string option pydict" where
  "rdf_fields L item =
     (let title = py_or (xml_text (rdf_title item)) (xml_text (rdf_dc_title item));
          link = xml_text (rdf_link item);
          about = rdf_about item;
          dc_date = xml_text (rdf_dc_date item);
          prism_doi = xml_text (rdf_prism_doi item);
          prism_publicationName = xml_text (rdf_prism_publicationName item);
          dc_identifier = xml_text (rdf_dc_identifier item)
      in [(''title'', title),
          (''link'', link),
          (''id_like'', py_or (py_or about dc_identifier) link),
          (''pub_date'', dc_date),
          (''doi'', py_or prism_doi (guess_doi L [dc_identifier, link])),
          (''journal'', prism_publicationName)])"

definition rss2_fields :: "pylib \<Rightarrow> rss2_item \<Rightarrow> string option pydict" where
  "rss2_fields L item =
     (let title = py_or (xml_text (r_title item)) (xml_text (r_dc_title item));
          link = xml_text (r_link item);
          guid = xml_text (r_guid item);
          pubDate = py_or (xml_text (r_pubDate item)) (xml_text (r_dc_date item));
          description = xml_text (r_description item)
      in [(''title'', title),
          (''link'', link),
          (''id_like'', py_or guid link),
          (''pub_date'', pubDate),
          (''doi'', guess_doi L [guid, description, link]),
          (''journal'', None)])"

text \<open>\<^verbatim>\<open>a or b\<close> on elements: an element without children is falsy.\<close>

definition el_or :: "link_el option \<Rightarrow> link_el option \<Rightarrow> link_el option" where
  "el_or a b = (case a of None \<Rightarrow> b | Some e \<Rightarrow> if l_children e = 0 then b else a)"

text \<open>The link and the id of an Atom entry.\<close>

definition atom_link :: "atom_entry \<Rightarrow> string option" where
  "atom_link entry =
     (case el_or (at_alternate_link entry) (at_link entry) of
        None \<Rightarrow> None
      | Some e \<Rightarrow> l_href e)"

definition atom_id :: "atom_entry \<Rightarrow> string option" where
  "atom_id entry = py_or (xml_text (at_atom_id entry)) (xml_text (at_id entry))"

definition atom_fields :: "pylib \<Rightarrow> atom_entry \<Rightarrow> string option pydict" where
  "atom_fields L entry =
     (let title = py_or (xml_text (at_atom_title entry)) (xml_text (at_title entry));
          link = atom_link entry;
          entry_id = atom_id entry;
          published = py_or (xml_text (at_atom_published entry)) (xml_text (at_published entry));
          updated = py_or (xml_text (at_atom_updated entry)) (xml_text (at_updated entry))
      in [(''title'', title),
          (''link'', link),
          (''id_like'', py_or entry_id link),
          (''pub_date'', py_or published updated),
          (''doi'', guess_doi L [entry_id, link]),
          (''journal'', None)])"

text \<open>\<^verbatim>\<open>parse_feed\<close> on the parsed root.\<close>

definition parse_feed_root :: "pylib \<Rightarrow> feed_xml \<Rightarrow> string option pydict list" where
  "parse_feed_root L root =
     (if root_tag root = ''RDF'' \<or> has_rss_channel root
        then map (\<lambda>item. add_item L (rdf_fields L item)) (rss_items root)
      else if root_tag root = ''rss'' \<or> channel root \<noteq> None
        then (case channel root of
                None \<Rightarrow> []
              | Some its \<Rightarrow> map (\<lambda>item. add_item L (rss2_fields L item)) its)
      else if root_tag root = ''feed'' \<or> has_atom_feed root
        then map (\<lambda>entry. add_item L (atom_fields L entry))
               (if atom_entries root \<noteq> [] then atom_entries root else plain_entries root)
      else [])"

text \<open>\<^verbatim>\<open>parse_feed\<close> on the bytes of the body: \<^verbatim>\<open>xml_root\<close> may raise.\<close>

definition parse_feed :: "pylib \<Rightarrow> string \<Rightarrow> py_error + string option pydict list" where
  "parse_feed L xml_bytes =
     (case xml_root L xml_bytes of
        None \<Rightarrow> Inl ParseError
      | Some root \<Rightarrow> Inr (parse_feed_root L root))"

section \<open>Article extraction\<close>

text \<open>Truthiness of a JSON value, \<^verbatim>\<open>obj.get(k)\<close> and \<^verbatim>\<open>a or b\<close> on JSON values.\<close>

fun json_truthy :: "json \<Rightarrow> bool" where
  "json_truthy JNull = False"
| "json_truthy (JBool b) = b"
| "json_truthy (JNum n) = (n \<noteq> 0)"
| "json_truthy (JStr s) = (s \<noteq> [])"
| "json_truthy (JArr xs) = (xs \<noteq> [])"
| "json_truthy (JObj kvs) = (kvs \<noteq> [])"

definition obj_get :: "(string \<times> json) list \<Rightarrow> string \<Rightarrow> json" where
  "obj_get obj k = (case map_of obj k of None \<Rightarrow> JNull | Some v \<Rightarrow> v)"

definition json_or :: "json \<Rightarrow> json \<Rightarrow> json" where
  "json_or a b = (if json_truthy a then a else b)"

text \<open>
  \<^verbatim>\<open>select_meta\<close>: the stripped \<^verbatim>\<open>content\<close> of the first \<^verbatim>\<open>meta\<close> of that name, when it is
  not empty.
\<close>

definition select_meta :: "page \<Rightarrow> string \<Rightarrow> string option" where
  "select_meta soup name =
     (case meta_content soup name of
        None \<Rightarrow> None
      | Some c \<Rightarrow> if c = [] then None else Some (strip c))"

text \<open>\<^verbatim>\<open>parse_jsonld\<close>: a list is spliced in, a dictionary is appended, anything else and
  a script that does not parse are skipped.\<close>

fun parse_jsonld_scripts :: "json option list \<Rightarrow> json list" where
  "parse_jsonld_scripts [] = []"
| "parse_jsonld_scripts (Some (JArr xs) # tags) = xs @ parse_jsonld_scripts tags"
| "parse_jsonld_scripts (Some (JObj kvs) # tags) = JObj kvs # parse_jsonld_scripts tags"
| "parse_jsonld_scripts (_ # tags) = parse_jsonld_scripts tags"

definition parse_jsonld :: "page \<Rightarrow> json list" where
  "parse_jsonld soup = parse_jsonld_scripts (ld_scripts soup)"

text \<open>
  \<^verbatim>\<open>pick_article_obj\<close>: the first object whose type is one of the three article types.
  An element that is not a dictionary has no \<^verbatim>\<open>get\<close>; \<^verbatim>\<open>t[0]\<close> of an empty list raises.
\<close>

definition article_types :: "json list" where
  "article_types = [JStr ''Article'', JStr ''ScholarlyArticle'', JStr ''NewsArticle'']"

fun pick_article_obj :: "json list \<Rightarrow> py_error + (string \<times> json) list option" where
  "pick_article_obj [] = Inr None"
| "pick_article_obj (JObj obj # jsonlds) =
     (let t = json_or (obj_get obj ''@type'') (obj_get obj ''type'') in
      case t of
        JArr [] \<Rightarrow> Inl IndexError
      | JArr (t0 # _) \<Rightarrow>
          if t0 \<in> set article_types then Inr (Some obj) else pick_article_obj jsonlds
      | _ \<Rightarrow> if t \<in> set article_types then Inr (Some obj) else pick_article_obj jsonlds)"
| "pick_article_obj (_ # jsonlds) = Inl AttributeError"

text \<open>
  The DOI of one candidate \<open>s\<close>: \<^verbatim>\<open>if s and "10." in s\<close>, then the search. \<open>Inr None\<close>
  means that nothing was found and the loop goes on. A number has no \<^verbatim>\<open>in\<close>; a list or
  a dictionary that holds \<^verbatim>\<open>"10."\<close> reaches \<^verbatim>\<open>re.search\<close>, which takes strings only.
\<close>

definition doi_of_candidate :: "pylib \<Rightarrow> json \<Rightarrow> py_error + string option" where
  "doi_of_candidate L s =
     (if \<not> json_truthy s then Inr None
      else case s of
             JStr t \<Rightarrow> if contains ''10.'' t then Inr (re_doi_ld L t) else Inr None
           | JArr xs \<Rightarrow> if JStr ''10.'' \<in> set xs then Inl TypeError else Inr None
           | JObj kvs \<Rightarrow> if ''10.'' \<in> set (map fst kvs) then Inl TypeError else Inr None
           | _ \<Rightarrow> Inl TypeError)"

fun doi_of_ident_list :: "pylib \<Rightarrow> json list \<Rightarrow> py_error + string option" where
  "doi_of_ident_list L [] = Inr None"
| "doi_of_ident_list L (it # ident) =
     (case (case it of
              JStr t \<Rightarrow> Inr (JStr t)
            | JObj kvs \<Rightarrow> Inr (json_or (obj_get kvs ''value'') (obj_get kvs ''@id''))
            | _ \<Rightarrow> Inl AttributeError) of
        Inl e \<Rightarrow> Inl e
      | Inr s \<Rightarrow>
          (case doi_of_candidate L s of
             Inl e \<Rightarrow> Inl e
           | Inr (Some doi) \<Rightarrow> Inr (Some doi)
           | Inr None \<Rightarrow> doi_of_ident_list L ident))"

definition doi_of_identifier :: "pylib \<Rightarrow> json \<Rightarrow> py_error + string option" where
  "doi_of_identifier L ident0 =
     (let ident = (case ident0 of
                     JObj kvs \<Rightarrow> json_or (obj_get kvs ''value'') (obj_get kvs ''@id'')
                   | _ \<Rightarrow> ident0)
      in case ident of
           JArr xs \<Rightarrow> doi_of_ident_list L xs
         | JStr t \<Rightarrow> if contains ''10.'' t then Inr (re_doi_ld L t) else Inr None
         | _ \<Rightarrow> Inr None)"

text \<open>\<^verbatim>\<open>clean_text\<close> of a JSON value: \<open>None\<close> and strings are accepted.\<close>

definition clean_json :: "pylib \<Rightarrow> json \<Rightarrow> py_error + string option" where
  "clean_json L v =
     (case v of
        JNull \<Rightarrow> Inr None
      | JStr s \<Rightarrow> Inr (clean_text L (Some s))
      | _ \<Rightarrow> Inl TypeError)"

text \<open>The journal: \<^verbatim>\<open>isPartOf.name\<close>, else \<^verbatim>\<open>publisher.name\<close>.\<close>

definition journal_of :: "(string \<times> json) list \<Rightarrow> json" where
  "journal_of obj =
     (let journal = JNull;
          journal = (case obj_get obj ''isPartOf'' of
                       JObj ispart \<Rightarrow> json_or (obj_get ispart ''name'') journal
                     | _ \<Rightarrow> journal);
          journal = (case obj_get obj ''publisher'' of
                       JObj publisher \<Rightarrow> json_or journal (obj_get publisher ''name'')
                     | _ \<Rightarrow> journal)
      in journal)"

text \<open>
  \<^verbatim>\<open>extract_from_jsonld\<close>. The result has all six keys, whatever the object holds; a
  field that the object does not have is stored as \<open>None\<close>.
\<close>

definition extract_from_jsonld ::
  "pylib \<Rightarrow> (string \<times> json) list \<Rightarrow> py_error + string option pydict" where
  "extract_from_jsonld L obj =
     (let title = json_or (obj_get obj ''headline'') (obj_get obj ''name'');
          abstract = json_or (obj_get obj ''abstract'') (obj_get obj ''description'');
          date_published = json_or (obj_get obj ''datePublished'') (obj_get obj ''dateCreated'');
          atype = json_or (obj_get obj ''articleSection'') (obj_get obj ''type'')
      in case doi_of_identifier L (obj_get obj ''identifier'') of
           Inl e \<Rightarrow> Inl e
         | Inr doi \<Rightarrow>
      (case clean_json L title of Inl e \<Rightarrow> Inl e | Inr c_title \<Rightarrow>
      (case clean_json L abstract of Inl e \<Rightarrow> Inl e | Inr c_abstract \<Rightarrow>
      (case clean_json L date_published of Inl e \<Rightarrow> Inl e | Inr c_date \<Rightarrow>
      (case clean_json L (journal_of obj) of Inl e \<Rightarrow> Inl e | Inr c_journal \<Rightarrow>
      (case clean_json L atype of Inl e \<Rightarrow> Inl e | Inr c_type \<Rightarrow>
         Inr [(''title'', c_title),
              (''abstract'', c_abstract),
              (''date_published'', c_date),
              (''journal'', c_journal),
              (''type'', c_type),
              (''doi'', clean_text L doi)]))))))"

text \<open>\<^verbatim>\<open>extract_from_jsonld(obj) if obj else {}\<close>.\<close>

definition jsonld_fields ::
  "pylib \<Rightarrow> (string \<times> json) list option \<Rightarrow> py_error + string option pydict" where
  "jsonld_fields L obj =
     (case obj of
        None \<Rightarrow> Inr []
      | Some kvs \<Rightarrow> if kvs = [] then Inr [] else extract_from_jsonld L kvs)"

text \<open>The heuristic search for the abstract, run when \<^verbatim>\<open>base.get("abstract")\<close> is falsy.\<close>

definition abstract_heuristic :: "pylib \<Rightarrow> page \<Rightarrow> string option pydict \<Rightarrow> string option pydict" where
  "abstract_heuristic L soup base =
     (let abstract_el = abstract_by_id soup;
          abstract_el = (case abstract_el of None \<Rightarrow> abstract_by_class soup | Some _ \<Rightarrow> abstract_el)
      in case abstract_el of
           None \<Rightarrow>
             (case og_description soup of
                None \<Rightarrow> base
              | Some c \<Rightarrow>
                  if c = [] then base
                  else AList.update ''abstract'' (clean_text L (Some c)) base)
         | Some txt \<Rightarrow> AList.update ''abstract'' (clean_text L (Some txt)) base)"

text \<open>The meta tag layer and the rest of \<^verbatim>\<open>extract_article_fields\<close>, from \<open>base\<close> on.\<close>

definition fill_from_page ::
  "pylib \<Rightarrow> page \<Rightarrow> string \<Rightarrow> string option pydict \<Rightarrow> string option pydict" where
  "fill_from_page L soup url base0 =
     (let b1 = setdefault base0 ''journal'' (select_meta soup ''citation_journal_title'');
          b2 = setdefault b1 ''title'' (select_meta soup ''citation_title'');
          b3 = setdefault b2 ''doi'' (select_meta soup ''citation_doi'');
          b4 = setdefault b3 ''date_published'' (select_meta soup ''citation_publication_date'');
          b5 = setdefault b4 ''type'' (select_meta soup ''citation_article_type'');
          b6 = setdefault b5 ''abstract''
                 (py_or (select_meta soup ''dc.description'') (select_meta soup ''description''));
          b7 = (if \<not> truthy (dict_get b6 ''abstract'') then abstract_heuristic L soup b6 else b6)
      in AList.update ''article_url'' (Some url) b7)"

definition extract_article_fields ::
  "pylib \<Rightarrow> string \<Rightarrow> string \<Rightarrow> py_error + string option pydict" where
  "extract_article_fields L html_text url =
     (let soup = soupify L html_text;
          jsonlds = parse_jsonld soup
      in case pick_article_obj jsonlds of
           Inl e \<Rightarrow> Inl e
         | Inr obj \<Rightarrow>
             (case jsonld_fields L obj of
                Inl e \<Rightarrow> Inl e
              | Inr base \<Rightarrow> Inr (fill_from_page L soup url base)))"

section \<open>The pipeline\<close>

text \<open>The part of \<^verbatim>\<open>config.json\<close> that decides what a run does to the tables.\<close>

record config =
  cfg_feeds :: "string list"
  cfg_translator :: string
  cfg_api_key :: "string option"

record new_article =
  n_uid :: string
  n_feed_url :: string
  n_article_url :: string
  n_doi :: "string option"
  n_pub_date :: "string option"
  n_meta :: "string option pydict"
  n_fetched_at :: string

text \<open>
  The outside world of a run, beyond the clock. \<open>chat_translate\<close> is the \<^verbatim>\<open>try\<close> block of
  \<^verbatim>\<open>translate_openai_en2zh\<close> for one text: the request and the reading of its answer,
  \<open>None\<close> when anything in it raises. \<open>write_report\<close> is the end of the loop body of
  \<^verbatim>\<open>run_pipeline\<close>, from the choice of the journal name to the writing of the file: it
  reads the tables and the clock, changes no table and gives the path of the file.
  \<^verbatim>\<open>time.sleep\<close> and \<^verbatim>\<open>print\<close> are left out.
\<close>

record 'w env = "'w clock" +
  today_ymd :: "'w \<Rightarrow> string \<times> 'w"
  requests_get :: "string \<Rightarrow> (string \<times> string) list \<Rightarrow> 'w \<Rightarrow> http_result \<times> 'w"
  chat_translate :: "config \<Rightarrow> string \<Rightarrow> 'w \<Rightarrow> string option \<times> 'w"
  write_report :: "string \<Rightarrow> 'w state \<Rightarrow> new_article list \<Rightarrow> string \<Rightarrow> string \<times> 'w"

definition HEADERS :: "(string \<times> string) list" where
  "HEADERS = [(''User-Agent'', ''rss-daily-pipeline/1.1 (+https://example.com)'')]"

text \<open>\<^verbatim>\<open>resp.raise_for_status()\<close> raises for the statuses 400 to 599.\<close>

definition is_error_status :: "int \<Rightarrow> bool" where
  "is_error_status st = (400 \<le> st \<and> st < 600)"

text \<open>
  \<^verbatim>\<open>fetch_feed\<close>: the conditional headers are sent when the validators are truthy; the
  status 304 gives no body; an error status raises; any other status gives the body.
\<close>

definition fetch_feed ::
  "'w env \<Rightarrow> string \<Rightarrow> string option \<Rightarrow> string option \<Rightarrow> 'w
     \<Rightarrow> (py_error + int \<times> (string \<rightharpoonup> string) \<times> string option) \<times> 'w" where
  "fetch_feed E url etag last_modified w =
     (let headers = HEADERS;
          headers = (if truthy etag then AList.update ''If-None-Match'' (the etag) headers
                     else headers);
          headers = (if truthy last_modified
                     then AList.update ''If-Modified-Since'' (the last_modified) headers
                     else headers)
      in case requests_get E url headers w of
           (HttpExc, w') \<Rightarrow> (Inl RequestException, w')
         | (HttpResp st resp_headers content, w') \<Rightarrow>
             if st = 304 then (Inr (304, resp_headers, None), w')
             else if is_error_status st then (Inl HTTPError, w')
             else (Inr (st, resp_headers, Some content), w'))"

text \<open>
  The \<^verbatim>\<open>try\<close> block of the article step: \<^verbatim>\<open>requests.get(link, ...)\<close>, which raises for
  \<open>None\<close>, then \<^verbatim>\<open>raise_for_status\<close>. \<open>None\<close> stands for any exception.
\<close>

definition fetch_article :: "'w env \<Rightarrow> string option \<Rightarrow> 'w \<Rightarrow> string option \<times> 'w" where
  "fetch_article E link w =
     (case link of
        None \<Rightarrow> (None, w)
      | Some url \<Rightarrow>
          (case requests_get E url HEADERS w of
             (HttpExc, w') \<Rightarrow> (None, w')
           | (HttpResp st resp_headers text, w') \<Rightarrow>
               if is_error_status st then (None, w') else (Some text, w')))"

text \<open>\<^verbatim>\<open>x or ""\<close>.\<close>

definition or_empty :: "string option \<Rightarrow> string" where
  "or_empty x = (if truthy x then the x else [])"

text \<open>\<^verbatim>\<open>{**a, **b}\<close>.\<close>

definition dict_merge :: "'v pydict \<Rightarrow> 'v pydict \<Rightarrow> 'v pydict" where
  "dict_merge a b = foldl (\<lambda>d kv. AList.update (fst kv) (snd kv) d) a b"

text \<open>\<^verbatim>\<open>translate_openai_en2zh\<close>.\<close>

fun translate_chunks :: "'w env \<Rightarrow> config \<Rightarrow> string list \<Rightarrow> 'w \<Rightarrow> string list \<times> 'w" where
  "translate_chunks E cfg [] w = ([], w)"
| "translate_chunks E cfg (chunk # texts) w =
     (if chunk = [] then
        (let (outputs, w') = translate_chunks E cfg texts w in ([] # outputs, w'))
      else
        (let (r, w1) = chat_translate E cfg chunk w;
             cn = (case r of Some c \<Rightarrow> c | None \<Rightarrow> chunk);
             (outputs, w2) = translate_chunks E cfg texts w1
         in (cn # outputs, w2)))"

definition translate_openai_en2zh ::
  "'w env \<Rightarrow> config \<Rightarrow> string list \<Rightarrow> 'w \<Rightarrow> string list \<times> 'w" where
  "translate_openai_en2zh E cfg texts w =
     (if \<not> truthy (cfg_api_key cfg) then (texts, w) else translate_chunks E cfg texts w)"

text \<open>
  The success path of the article step, from \<^verbatim>\<open>merged\<close> on: the record, the translation,
  \<^verbatim>\<open>upsert_article\<close>, \<^verbatim>\<open>mark_seen\<close> and the new article.
\<close>

definition store_article ::
  "pylib \<Rightarrow> 'w env \<Rightarrow> config \<Rightarrow> string \<Rightarrow> string option pydict \<Rightarrow> string
     \<Rightarrow> (string \<times> json) list option \<Rightarrow> string option pydict \<Rightarrow> string option pydict
     \<Rightarrow> 'w state \<Rightarrow> 'w state \<times> new_article" where
  "store_article L E cfg feed_url it uid jsonld_obj fields_from_jsonld fallback_fields s =
     (let link = dict_get it ''link'';
          doi = dict_get it ''doi'';
          merged = dict_merge fallback_fields (filter (\<lambda>kv. truthy (snd kv)) fields_from_jsonld);
          journal = dict_get merged ''journal'';
          title_en = py_or (dict_get merged ''title'') (dict_get it ''title'');
          atype = dict_get merged ''type'';
          date_published = py_or (dict_get merged ''date_published'') (dict_get it ''pub_date'');
          doi_final = py_or (dict_get merged ''doi'') doi;
          article_url = or_empty (py_or (dict_get merged ''article_url'') link);
          abstract_en = dict_get merged ''abstract'';
          (cn, w1) =
            (if cfg_translator cfg = ''openai''
             then (let (outs, w') =
                         translate_openai_en2zh E cfg [or_empty title_en, or_empty abstract_en]
                           (world s)
                   in ((Some (outs ! 0), Some (outs ! 1)), w'))
             else ((title_en, abstract_en), world s));
          record = [(''journal'', journal),
                    (''title_en'', title_en),
                    (''title_cn'', fst cn),
                    (''type'', atype),
                    (''pub_date'', date_published),
                    (''doi'', doi_final),
                    (''article_url'', Some article_url),
                    (''abstract_en'', abstract_en),
                    (''abstract_cn'', snd cn)];
          s2 = upsert_article L E (s\<lparr>world := w1\<rparr>) uid feed_url record jsonld_obj;
          s3 = mark_seen E s2 uid feed_url article_url doi_final date_published;
          (t, w4) = now_ts E (world s3)
      in (s3\<lparr>world := w4\<rparr>,
          \<lparr>n_uid = uid, n_feed_url = feed_url, n_article_url = article_url, n_doi = doi_final,
           n_pub_date = date_published, n_meta = record, n_fetched_at = t\<rparr>))"

text \<open>
  One pass of the loop over \<^verbatim>\<open>new_items\<close>. The result is the state and \<open>Inl\<close> an exception
  that ends the run, \<open>Inr None\<close> after the \<^verbatim>\<open>continue\<close> of a failed fetch, or \<open>Inr\<close> the new
  article. The uid is entered in \<open>article_log\<close> when the step starts.
\<close>

definition process_item ::
  "pylib \<Rightarrow> 'w env \<Rightarrow> config \<Rightarrow> string \<Rightarrow> string option pydict \<Rightarrow> 'w state
     \<Rightarrow> 'w state \<times> (py_error + new_article option)" where
  "process_item L E cfg feed_url it s =
     (case dict_get it ''_uid'' of
        None \<Rightarrow> (s, Inl KeyError)
      | Some uid \<Rightarrow>
          (let link = dict_get it ''link'';
               doi = dict_get it ''doi'';
               pub_date = dict_get it ''pub_date'';
               s1 = s\<lparr>article_log := article_log s @ [uid]\<rparr>;
               (html_text, w) = fetch_article E link (world s1);
               s2 = s1\<lparr>world := w\<rparr>
           in case html_text of
                None \<Rightarrow> (mark_seen E s2 uid feed_url (or_empty link) doi pub_date, Inr None)
              | Some html \<Rightarrow>
                  (case pick_article_obj (parse_jsonld (soupify L html)) of
                     Inl e \<Rightarrow> (s2, Inl e)
                   | Inr jsonld_obj \<Rightarrow>
                  (case jsonld_fields L jsonld_obj of
                     Inl e \<Rightarrow> (s2, Inl e)
                   | Inr fields_from_jsonld \<Rightarrow>
                  (case extract_article_fields L html (or_empty link) of
                     Inl e \<Rightarrow> (s2, Inl e)
                   | Inr fallback_fields \<Rightarrow>
                       (let (s3, na) = store_article L E cfg feed_url it uid jsonld_obj
                                         fields_from_jsonld fallback_fields s2
                        in (s3, Inr (Some na))))))))"

fun process_items ::
  "pylib \<Rightarrow> 'w env \<Rightarrow> config \<Rightarrow> string \<Rightarrow> string option pydict list \<Rightarrow> 'w state
     \<Rightarrow> new_article list \<Rightarrow> 'w state \<times> (py_error + new_article list)" where
  "process_items L E cfg feed_url [] s todays_items = (s, Inr todays_items)"
| "process_items L E cfg feed_url (it # new_items) s todays_items =
     (case process_item L E cfg feed_url it s of
        (s', Inl e) \<Rightarrow> (s', Inl e)
      | (s', Inr None) \<Rightarrow> process_items L E cfg feed_url new_items s' todays_items
      | (s', Inr (Some na)) \<Rightarrow> process_items L E cfg feed_url new_items s' (todays_items @ [na]))"

text \<open>
  The body of the loop over the feeds. \<open>Inr None\<close> is the \<^verbatim>\<open>continue\<close> after a failed fetch
  of the feed, \<open>Inr (Some path)\<close> the report written.
\<close>

definition run_feed ::
  "pylib \<Rightarrow> 'w env \<Rightarrow> config \<Rightarrow> string \<Rightarrow> string \<Rightarrow> 'w state
     \<Rightarrow> 'w state \<times> (py_error + string option)" where
  "run_feed L E cfg today feed_url s =
     (let feed_row = feeds s feed_url;
          etag = (case feed_row of None \<Rightarrow> None | Some r \<Rightarrow> f_etag r);
          last_mod = (case feed_row of None \<Rightarrow> None | Some r \<Rightarrow> f_last_modified r);
          (res, w1) = fetch_feed E feed_url etag last_mod (world s);
          s1 = s\<lparr>world := w1\<rparr>
      in case res of
           Inl e \<Rightarrow> (s1, Inr None)
         | Inr (status, headers, content) \<Rightarrow>
             (let (t, w2) = now_ts E (world s1);
                  row = (if status = 304
                         then \<lparr>f_etag = etag, f_last_modified = last_mod,
                                f_last_checked_at = Some t\<rparr>
                         else \<lparr>f_etag = headers ''ETag'', f_last_modified = headers ''Last-Modified'',
                                f_last_checked_at = Some t\<rparr>);
                  s2 = s1\<lparr>feeds := (feeds s1)(feed_url \<mapsto> row), world := w2\<rparr>
              in case (if status = 304 then Inr [] else parse_feed L (or_empty content)) of
                   Inl e \<Rightarrow> (s2, Inl e)
                 | Inr items \<Rightarrow>
                     (case process_items L E cfg feed_url (check_new_items L s2 feed_url items)
                             s2 [] of
                        (s3, Inl e) \<Rightarrow> (s3, Inl e)
                      | (s3, Inr todays_items) \<Rightarrow>
                          (let (md_path, w4) = write_report E feed_url s3 todays_items today
                           in (s3\<lparr>world := w4\<rparr>, Inr (Some md_path))))))"

fun run_feeds ::
  "pylib \<Rightarrow> 'w env \<Rightarrow> config \<Rightarrow> string \<Rightarrow> string list \<Rightarrow> 'w state \<Rightarrow> string list
     \<Rightarrow> 'w state \<times> (py_error + string list)" where
  "run_feeds L E cfg today [] s written_paths = (s, Inr written_paths)"
| "run_feeds L E cfg today (feed_url # feed_urls) s written_paths =
     (case run_feed L E cfg today feed_url s of
        (s', Inl e) \<Rightarrow> (s', Inl e)
      | (s', Inr None) \<Rightarrow> run_feeds L E cfg today feed_urls s' written_paths
      | (s', Inr (Some md_path)) \<Rightarrow> run_feeds L E cfg today feed_urls s' (written_paths @ [md_path]))"

text \<open>
  \<^verbatim>\<open>run_pipeline\<close>, from the tables as the run finds them. Without feeds the run exits
  before anything else. An exception that nothing catches ends the run; the tables stay
  as the commits before it left them.
\<close>

definition run_pipeline ::
  "pylib \<Rightarrow> 'w env \<Rightarrow> config \<Rightarrow> 'w state \<Rightarrow> 'w state \<times> (py_error + string list)" where
  "run_pipeline L E cfg s =
     (if cfg_feeds cfg = [] then (s, Inl SystemExit)
      else (let (today, w) = today_ymd E (world s)
            in run_feeds L E cfg today (cfg_feeds cfg) (s\<lparr>world := w\<rparr>) []))"

text \<open>
  The runs that an outside trigger starts one after the other on the same database, each
  with its own world and configuration.
\<close>

fun run_many :: "pylib \<Rightarrow> ('w env \<times> config) list \<Rightarrow> 'w state \<Rightarrow> 'w state" where
  "run_many L [] s = s"
| "run_many L (run # runs) s = run_many L runs (fst (run_pipeline L (fst run) (snd run) s))"

section \<open>Example inputs\<close>

text \<open>Feeds, pages, states and a world for the examples below.\<close>

definition ex_rdf :: feed_xml where
  "ex_rdf =
     \<lparr>root_tag = ''RDF'', has_rss_channel = True,
      rss_items =
        [\<lparr>rdf_title = Some ''A  title'', rdf_dc_title = None, rdf_link = Some ''http://x/a  b'',
          rdf_about = None, rdf_dc_date = Some '' '', rdf_prism_doi = None,
          rdf_prism_publicationName = None, rdf_dc_identifier = None\<rparr>],
      channel = None, has_atom_feed = False, atom_entries = [], plain_entries = []\<rparr>"

definition ex_rss2 :: feed_xml where
  "ex_rss2 =
     \<lparr>root_tag = ''rss'', has_rss_channel = False, rss_items = [],
      channel =
        Some [\<lparr>r_title = Some ''T'', r_dc_title = None, r_link = Some ''http://x/a'',
               r_guid = None, r_pubDate = None, r_dc_date = None, r_description = None\<rparr>],
      has_atom_feed = False, atom_entries = [], plain_entries = []\<rparr>"

definition ex_atom_std :: atom_entry where
  "ex_atom_std =
     \<lparr>at_atom_title = Some ''T'', at_title = None,
      at_alternate_link = Some \<lparr>l_children = 0, l_href = Some ''http://x/a''\<rparr>,
      at_link = None,
      at_atom_id = None, at_id = None, at_atom_published = None, at_published = None,
      at_atom_updated = None, at_updated = None\<rparr>"

definition ex_atom_plain :: atom_entry where
  "ex_atom_plain =
     \<lparr>at_atom_title = None, at_title = Some ''T'',
      at_alternate_link = None,
      at_link = Some \<lparr>l_children = 0, l_href = Some ''http://x/a''\<rparr>,
      at_atom_id = None, at_id = None, at_atom_published = None, at_published = None,
      at_atom_updated = None, at_updated = None\<rparr>"

definition ex_atom_nested :: atom_entry where
  "ex_atom_nested =
     \<lparr>at_atom_title = Some ''T'', at_title = None,
      at_alternate_link = Some \<lparr>l_children = 1, l_href = Some ''http://x/a''\<rparr>,
      at_link = None,
      at_atom_id = None, at_id = None, at_atom_published = None, at_published = None,
      at_atom_updated = None, at_updated = None\<rparr>"

definition ex_atom :: feed_xml where
  "ex_atom =
     \<lparr>root_tag = ''feed'', has_rss_channel = False, rss_items = [], channel = None,
      has_atom_feed = False, atom_entries = [ex_atom_std], plain_entries = []\<rparr>"

definition ex_page :: page where
  "ex_page =
     \<lparr>ld_scripts = [Some (JObj [(''@type'', JStr ''Article''), (''description'', JStr ''D'')])],
      meta_content = (\<lambda>n. if n = ''citation_title'' then Some ''T'' else None),
      abstract_by_id = None, abstract_by_class = None, og_description = None\<rparr>"

definition ex_page_lib :: pylib where
  "ex_page_lib = example_lib\<lparr>soupify := (\<lambda>h. ex_page)\<rparr>"

definition example_env :: "nat env" where
  "example_env =
     \<lparr>now_ts = (\<lambda>n. (''2024-01-01T00:00:00+08:00'', Suc n)),
      today_ymd = (\<lambda>n. (''2024-01-01'', Suc n)),
      requests_get =
        (\<lambda>url headers n.
           (if url = ''http://f/rss''
              then HttpResp 200 (\<lambda>h. if h = ''ETag'' then Some ''e1'' else None) ''<rss>''
            else if url = ''http://f/same''
              then HttpResp 304 (\<lambda>h. None) []
            else if url = ''http://x/a'' then HttpResp 200 (\<lambda>h. None) ''<html>''
            else HttpExc, Suc n)),
      chat_translate = (\<lambda>cfg chunk n. (None, Suc n)),
      write_report = (\<lambda>feed_url s todays today. (''reports/rss_report.md'', Suc (world s)))\<rparr>"

definition ex_dup :: feed_xml where
  "ex_dup =
     \<lparr>root_tag = ''rss'', has_rss_channel = False, rss_items = [],
      channel =
        Some [\<lparr>r_title = Some ''T'', r_dc_title = None, r_link = Some ''http://x/a'',
               r_guid = Some ''g1'', r_pubDate = None, r_dc_date = None, r_description = None\<rparr>,
              \<lparr>r_title = Some ''T'', r_dc_title = None, r_link = Some ''http://x/a'',
               r_guid = Some ''g1'', r_pubDate = None, r_dc_date = None, r_description = None\<rparr>],
      has_atom_feed = False, atom_entries = [], plain_entries = []\<rparr>"

definition ex_dup_lib :: pylib where
  "ex_dup_lib = example_lib\<lparr>xml_root := (\<lambda>b. if b = ''<rss>'' then Some ex_dup else None)\<rparr>"

definition ex_cfg :: config where
  "ex_cfg = \<lparr>cfg_feeds = [''http://f/rss''], cfg_translator = ''none'', cfg_api_key = None\<rparr>"

definition ex_empty :: "nat state" where
  "ex_empty = \<lparr>feeds = Map.empty, seen = Map.empty, articles = Map.empty, world = 0,
               article_log = []\<rparr>"

definition ex_item :: "string option pydict" where
  "ex_item = [(''title'', Some ''T''), (''link'', Some ''http://x/a''), (''id_like'', Some ''g1''),
              (''pub_date'', None), (''doi'', None), (''journal'', None)]"

definition ex_new_item :: "string option pydict" where
  "ex_new_item = ex_item @ [(''_uid'', Some ''id:g1'')]"

definition ex_seen_row :: seen_row where
  "ex_seen_row =
     \<lparr>s_feed_url = ''http://f/rss'', s_article_url = Some ''http://x/a'', s_doi = None,
      s_pub_date = None, s_first_seen_at = Some ''2023-12-31T00:00:00+08:00''\<rparr>"

definition ex_seen :: "nat state" where
  "ex_seen = ex_empty\<lparr>seen := [''id:g1'' \<mapsto> ex_seen_row]\<rparr>"

definition ex_bad_item :: "string option pydict" where
  "ex_bad_item =
     [(''title'', Some ''U''), (''link'', Some ''http://x/missing''), (''id_like'', Some ''g2''),
      (''pub_date'', Some ''2024-01-01''), (''doi'', None), (''journal'', None),
      (''_uid'', Some ''id:g2'')]"

definition ex_feed_row :: feed_row where
  "ex_feed_row =
     \<lparr>f_etag = Some ''e0'', f_last_modified = None,
      f_last_checked_at = Some ''2023-12-31T00:00:00+08:00''\<rparr>"

definition ex_cached :: "nat state" where
  "ex_cached = ex_empty\<lparr>feeds := [''http://f/down'' \<mapsto> ex_feed_row,
                                    ''http://f/same'' \<mapsto> ex_feed_row]\<rparr>"

definition ex_cfg_down :: config where
  "ex_cfg_down = \<lparr>cfg_feeds = [''http://f/down''], cfg_translator = ''none'', cfg_api_key = None\<rparr>"

section \<open>Properties of the seen table and the article table\<close>

lemma insert_or_ignore_present: "tbl k = Some r \<Longrightarrow> insert_or_ignore tbl k row = tbl"
  by (simp add: insert_or_ignore_def)

lemma insert_or_ignore_twice:
  "insert_or_ignore (insert_or_ignore tbl k row) k row' = insert_or_ignore tbl k row"
  by (simp add: insert_or_ignore_def split: option.splits)

lemma seen_mark_seen:
  "seen (mark_seen C s uid feed_url article_url doi pub_date) =
     insert_or_ignore (seen s) uid
       \<lparr>s_feed_url = feed_url, s_article_url = Some article_url, s_doi = doi,
          s_pub_date = pub_date, s_first_seen_at = Some (fst (now_ts C (world s)))\<rparr>"
  by (simp add: mark_seen_def case_prod_beta)

lemma frame_mark_seen:
  "feeds (mark_seen C s uid feed_url article_url doi pub_date) = feeds s"
  "articles (mark_seen C s uid feed_url article_url doi pub_date) = articles s"
  "article_log (mark_seen C s uid feed_url article_url doi pub_date) = article_log s"
  by (simp_all add: mark_seen_def case_prod_beta)

text \<open>
  C7. \<^verbatim>\<open>mark_seen\<close> is idempotent. When the uid has a row in \<open>seen\<close>, a call leaves the
  whole table as it was: no new row, and the existing row, \<open>first_seen_at\<close> included, is
  not touched. So a second call with the same uid, whatever its other arguments, leaves
  the table as the first call left it. The function is total: there is no error.
\<close>

theorem mark_seen_idempotent:
  "(seen s uid = Some r \<longrightarrow>
      seen (mark_seen C s uid feed_url article_url doi pub_date) = seen s)
   \<and> seen (mark_seen C (mark_seen C s uid feed_url article_url doi pub_date)
             uid feed_url' article_url' doi' pub_date')
       = seen (mark_seen C s uid feed_url article_url doi pub_date)"
  by (simp add: seen_mark_seen insert_or_ignore_twice insert_or_ignore_present)

theorem mark_seen_idempotent_witness:
  "seen \<lparr>feeds = Map.empty,
         seen = [''id:g1'' \<mapsto> \<lparr>s_feed_url = ''f'', s_article_url = Some ''a'', s_doi = None,
                                s_pub_date = None, s_first_seen_at = Some ''t0''\<rparr>],
         articles = Map.empty, world = [''t1'', ''t2''], article_log = []\<rparr> ''id:g1''
     = Some \<lparr>s_feed_url = ''f'', s_article_url = Some ''a'', s_doi = None,
             s_pub_date = None, s_first_seen_at = Some ''t0''\<rparr>
   \<and> seen (mark_seen list_clock
        \<lparr>feeds = Map.empty,
         seen = [''id:g1'' \<mapsto> \<lparr>s_feed_url = ''f'', s_article_url = Some ''a'', s_doi = None,
                                s_pub_date = None, s_first_seen_at = Some ''t0''\<rparr>],
         articles = Map.empty, world = [''t1'', ''t2''], article_log = []\<rparr>
        ''id:g1'' ''f2'' ''a2'' (Some ''10.1/x'') None)
     = [''id:g1'' \<mapsto> \<lparr>s_feed_url = ''f'', s_article_url = Some ''a'', s_doi = None,
                         s_pub_date = None, s_first_seen_at = Some ''t0''\<rparr>]"
  using mark_seen_idempotent [of
     "\<lparr>feeds = Map.empty,
         seen = [''id:g1'' \<mapsto> \<lparr>s_feed_url = ''f'', s_article_url = Some ''a'', s_doi = None,
                                s_pub_date = None, s_first_seen_at = Some ''t0''\<rparr>],
         articles = Map.empty, world = [''t1'', ''t2''], article_log = []\<rparr>"
     "''id:g1''" _ list_clock "''f2''" "''a2''" "Some ''10.1/x''" None]
  by simp

lemma articles_upsert_article:
  "articles (upsert_article L C s uid feed_url flds raw) uid =
     Some (let row = \<lparr>a_feed_url = feed_url,
                 a_journal = dict_get flds ''journal'',
                 a_title_en = dict_get flds ''title_en'',
                 a_title_cn = dict_get flds ''title_cn'',
                 a_type = dict_get flds ''type'',
                 a_pub_date = dict_get flds ''pub_date'',
                 a_doi = dict_get flds ''doi'',
                 a_article_url = dict_get flds ''article_url'',
                 a_abstract_en = dict_get flds ''abstract_en'',
                 a_abstract_cn = dict_get flds ''abstract_cn'',
                 a_raw_jsonld = raw_jsonld_text L raw,
                 a_fetched_at = Some (fst (now_ts C (world s))),
                 a_last_updated_at = Some (fst (now_ts C (snd (now_ts C (world s)))))\<rparr>
           in case articles s uid of None \<Rightarrow> row | Some old \<Rightarrow> on_conflict_update old row)"
  by (simp add: upsert_article_def Let_def case_prod_beta split: option.splits)

lemma frame_upsert_article:
  "feeds (upsert_article L C s uid feed_url flds raw) = feeds s"
  "seen (upsert_article L C s uid feed_url flds raw) = seen s"
  "article_log (upsert_article L C s uid feed_url flds raw) = article_log s"
  by (simp_all add: upsert_article_def Let_def case_prod_beta)

text \<open>
  C8. Two calls of \<^verbatim>\<open>upsert_article\<close> for one uid, from any state: after the second call
  the row holds the second call's value in every extracted column (journal, both titles,
  type, publication date, doi, article url, both abstracts, the raw structured data), and
  \<open>last_updated_at\<close> is the second clock reading of the second call. \<open>fetched_at\<close> is the one
  the row had after the first call, which is the first call's first clock reading when
  the first call inserted the row. (\<open>feed_url\<close> is kept from the first row as well.)
\<close>

theorem upsert_article_twice:
  "\<exists>r1 r2.
     articles (upsert_article L C s uid f1 flds1 raw1) uid = Some r1
   \<and> articles (upsert_article L C (upsert_article L C s uid f1 flds1 raw1) uid f2 flds2 raw2) uid
       = Some r2
   \<and> a_journal r2 = dict_get flds2 ''journal''
   \<and> a_title_en r2 = dict_get flds2 ''title_en''
   \<and> a_title_cn r2 = dict_get flds2 ''title_cn''
   \<and> a_type r2 = dict_get flds2 ''type''
   \<and> a_pub_date r2 = dict_get flds2 ''pub_date''
   \<and> a_doi r2 = dict_get flds2 ''doi''
   \<and> a_article_url r2 = dict_get flds2 ''article_url''
   \<and> a_abstract_en r2 = dict_get flds2 ''abstract_en''
   \<and> a_abstract_cn r2 = dict_get flds2 ''abstract_cn''
   \<and> a_raw_jsonld r2 = raw_jsonld_text L raw2
   \<and> a_last_updated_at r2 =
       Some (fst (now_ts C (snd (now_ts C (world (upsert_article L C s uid f1 flds1 raw1))))))
   \<and> a_fetched_at r2 = a_fetched_at r1
   \<and> a_feed_url r2 = a_feed_url r1
   \<and> (articles s uid = None \<longrightarrow> a_fetched_at r1 = Some (fst (now_ts C (world s))))"
  by (simp add: articles_upsert_article on_conflict_update_def Let_def split: option.splits)

theorem upsert_article_twice_witness:
  "articles \<lparr>feeds = Map.empty, seen = Map.empty, articles = Map.empty,
              world = [''t1'', ''t2'', ''t3'', ''t4''], article_log = []\<rparr> ''id:g1'' = None
   \<and> articles
        (upsert_article example_lib list_clock
          (upsert_article example_lib list_clock
             \<lparr>feeds = Map.empty, seen = Map.empty, articles = Map.empty,
                world = [''t1'', ''t2'', ''t3'', ''t4''], article_log = []\<rparr>
             ''id:g1'' ''f1'' [(''title_en'', Some ''A''), (''doi'', Some ''10.1/a'')] None)
          ''id:g1'' ''f2'' [(''title_en'', Some ''B'')] None) ''id:g1''
     = Some \<lparr>a_feed_url = ''f1'', a_journal = None, a_title_en = Some ''B'', a_title_cn = None,
             a_type = None, a_pub_date = None, a_doi = None, a_article_url = None,
             a_abstract_en = None, a_abstract_cn = None, a_raw_jsonld = None,
             a_fetched_at = Some ''t1'', a_last_updated_at = Some ''t4''\<rparr>"
  using upsert_article_twice [of example_lib list_clock
     "\<lparr>feeds = Map.empty, seen = Map.empty, articles = Map.empty,
        world = [''t1'', ''t2'', ''t3'', ''t4''], article_log = []\<rparr>"
     "''id:g1''" "''f1''" "[(''title_en'', Some ''A''), (''doi'', Some ''10.1/a'')]" None
     "''f2''" "[(''title_en'', Some ''B'')]" None]
  by (simp add: upsert_article_def list_clock_def on_conflict_update_def dict_get_def
        raw_jsonld_text_def)

section \<open>Properties of the identity\<close>

lemma sort_key_fst_unique:
  fixes xs ys :: "(string \<times> 'v) list"
  assumes dx: "distinct (map fst xs)" and dy: "distinct (map fst ys)"
    and m: "map_of xs = map_of ys"
  shows "sort_key fst xs = sort_key fst ys"
proof -
  have s: "set xs = set ys"
    using map_of_inject_set [OF dx dy] m by simp
  have ix: "inj_on fst (set xs)" and iy: "inj_on fst (set ys)"
    using dx dy by (simp_all add: distinct_map)
  have "map fst (sort_key fst xs) = map fst (sort_key fst ys)"
  proof (rule sorted_distinct_set_unique)
    show "sorted (map fst (sort_key fst xs))" by simp
    show "sorted (map fst (sort_key fst ys))" by simp
    show "distinct (map fst (sort_key fst xs))"
      using dx ix by (simp add: distinct_map)
    show "distinct (map fst (sort_key fst ys))"
      using dy iy by (simp add: distinct_map)
    show "set (map fst (sort_key fst xs)) = set (map fst (sort_key fst ys))"
      using s by simp
  qed
  moreover have "inj_on fst (set (sort_key fst xs) \<union> set (sort_key fst ys))"
    using ix s by simp
  ultimately show ?thesis
    by (rule map_inj_on)
qed

lemma dict_get_cong: "map_of d = map_of d' \<Longrightarrow> dict_get d k = dict_get d' k"
  by (simp add: dict_get_def)

text \<open>
  C2. \<^verbatim>\<open>compute_uid\<close> follows the strict priority: a non-empty doi gives \<open>doi:\<close> and the
  lowercased doi; otherwise a non-empty \<open>id_like\<close> gives \<open>id:\<close> and the \<open>id_like\<close>; otherwise
  a non-empty link gives \<open>linkhash:\<close> and the first 16 characters of the hash of the link;
  otherwise \<open>hash:\<close> and the first 16 characters of the hash of the item written as JSON
  with sorted keys. Two items with the same content (the same keys with the same values,
  entered in any order) are written as the same JSON text and get the same uid.
\<close>

theorem compute_uid_priority:
  "(dict_get item ''doi'' = Some d \<and> d \<noteq> [] \<longrightarrow> compute_uid L item = ''doi:'' @ str_lower L d)
   \<and> (\<not> truthy (dict_get item ''doi'') \<and> dict_get item ''id_like'' = Some i \<and> i \<noteq> []
        \<longrightarrow> compute_uid L item = ''id:'' @ i)
   \<and> (\<not> truthy (dict_get item ''doi'') \<and> \<not> truthy (dict_get item ''id_like'')
        \<and> dict_get item ''link'' = Some l \<and> l \<noteq> []
        \<longrightarrow> compute_uid L item = ''linkhash:'' @ take 16 (sha256 L l))
   \<and> (\<not> truthy (dict_get item ''doi'') \<and> \<not> truthy (dict_get item ''id_like'')
        \<and> \<not> truthy (dict_get item ''link'')
        \<longrightarrow> compute_uid L item = ''hash:'' @ take 16 (sha256 L (json_dumps_sorted L item)))
   \<and> (distinct (map fst item) \<and> distinct (map fst item') \<and> map_of item = map_of item'
        \<longrightarrow> json_dumps_sorted L item = json_dumps_sorted L item'
          \<and> compute_uid L item = compute_uid L item')"
proof -
  have "json_dumps_sorted L item = json_dumps_sorted L item'
          \<and> compute_uid L item = compute_uid L item'"
    if h: "distinct (map fst item)" "distinct (map fst item')" "map_of item = map_of item'"
  proof -
    have j: "json_dumps_sorted L item = json_dumps_sorted L item'"
      using sort_key_fst_unique [OF h] by (simp add: json_dumps_sorted_def)
    have g: "dict_get item k = dict_get item' k" for k
      using h(3) by (rule dict_get_cong)
    show ?thesis
      by (simp only: compute_uid_def g j)
  qed
  then show ?thesis
    by (simp add: compute_uid_def)
qed

lemma lower_example: "str_lower example_lib ''10.1000/XYZ'' = ''10.1000/xyz''"
  by (simp add: example_lib_def ascii_lower_def)

theorem compute_uid_priority_witness:
  "compute_uid example_lib
      [(''title'', Some ''T''), (''link'', Some ''http://x/a''), (''id_like'', Some ''g1''),
       (''doi'', Some ''10.1000/XYZ'')] = ''doi:10.1000/xyz''
   \<and> compute_uid example_lib
      [(''title'', Some ''T''), (''link'', Some ''http://x/a''), (''id_like'', Some ''g1''),
       (''doi'', None)] = ''id:g1''
   \<and> compute_uid example_lib
      [(''title'', Some ''T''), (''link'', Some ''http://x/a''), (''id_like'', None),
       (''doi'', None)] = ''linkhash:'' @ take 16 (sha256 example_lib ''http://x/a'')
   \<and> compute_uid example_lib [(''title'', Some ''T''), (''link'', None)]
       = ''hash:'' @ take 16 (sha256 example_lib
           (json_dumps_sorted example_lib [(''title'', Some ''T''), (''link'', None)]))
   \<and> json_dumps_sorted example_lib [(''title'', Some ''T''), (''link'', None)]
       = json_dumps_sorted example_lib [(''link'', None), (''title'', Some ''T'')]
   \<and> compute_uid example_lib [(''title'', Some ''T''), (''link'', None)]
       = compute_uid example_lib [(''link'', None), (''title'', Some ''T'')]"
proof -
  have a: "compute_uid example_lib
      [(''title'', Some ''T''), (''link'', Some ''http://x/a''), (''id_like'', Some ''g1''),
       (''doi'', Some ''10.1000/XYZ'')] = ''doi:'' @ str_lower example_lib ''10.1000/XYZ''"
    by (rule compute_uid_priority [THEN conjunct1, THEN mp]) (simp add: dict_get_def)
  have b: "compute_uid example_lib
      [(''title'', Some ''T''), (''link'', Some ''http://x/a''), (''id_like'', Some ''g1''),
       (''doi'', None)] = ''id:'' @ ''g1''"
    by (rule compute_uid_priority [THEN conjunct2, THEN conjunct1, THEN mp])
       (simp add: dict_get_def)
  have c: "compute_uid example_lib
      [(''title'', Some ''T''), (''link'', Some ''http://x/a''), (''id_like'', None),
       (''doi'', None)] = ''linkhash:'' @ take 16 (sha256 example_lib ''http://x/a'')"
    by (rule compute_uid_priority [THEN conjunct2, THEN conjunct2, THEN conjunct1, THEN mp])
       (simp add: dict_get_def)
  have d: "compute_uid example_lib [(''title'', Some ''T''), (''link'', None)]
       = ''hash:'' @ take 16 (sha256 example_lib
           (json_dumps_sorted example_lib [(''title'', Some ''T''), (''link'', None)]))"
    by (rule compute_uid_priority
          [THEN conjunct2, THEN conjunct2, THEN conjunct2, THEN conjunct1, THEN mp])
       (simp add: dict_get_def)
  have e: "json_dumps_sorted example_lib [(''title'', Some ''T''), (''link'', None)]
       = json_dumps_sorted example_lib [(''link'', None), (''title'', Some ''T'')]
     \<and> compute_uid example_lib [(''title'', Some ''T''), (''link'', None)]
       = compute_uid example_lib [(''link'', None), (''title'', Some ''T'')]"
    by (rule compute_uid_priority
          [THEN conjunct2, THEN conjunct2, THEN conjunct2, THEN conjunct2, THEN mp])
       (simp add: fun_eq_iff)
  show ?thesis
    using a b c d e by (simp add: lower_example)
qed

text \<open>
  C10. At every level of \<^verbatim>\<open>compute_uid\<close> an empty string is treated as an absent field:
  with an empty or absent doi the uid does not start with \<open>doi:\<close> and is what the rest of
  the cascade gives (\<open>id_like\<close>, then link, then the hash of all fields), and the same at
  the next two levels. The part of the uid after its prefix is never empty, given that
  \<^verbatim>\<open>str.lower\<close> of a non-empty string is not empty and that a SHA-256 hex digest has 64
  characters.
\<close>

theorem compute_uid_empty_as_absent:
  assumes lo: "\<forall>s. s \<noteq> [] \<longrightarrow> str_lower L s \<noteq> []"
    and sh: "\<forall>s. length (sha256 L s) = 64"
  shows "(\<exists>p. p \<noteq> [] \<and>
            (compute_uid L item = ''doi:'' @ p \<or> compute_uid L item = ''id:'' @ p
             \<or> compute_uid L item = ''linkhash:'' @ p \<or> compute_uid L item = ''hash:'' @ p))
     \<and> (dict_get item ''doi'' = Some [] \<or> dict_get item ''doi'' = None \<longrightarrow>
          take 4 (compute_uid L item) \<noteq> ''doi:''
          \<and> compute_uid L item =
              (if truthy (dict_get item ''id_like'') then ''id:'' @ the (dict_get item ''id_like'')
               else if truthy (dict_get item ''link'')
                 then ''linkhash:'' @ take 16 (sha256 L (the (dict_get item ''link'')))
               else ''hash:'' @ take 16 (sha256 L (json_dumps_sorted L item))))
     \<and> ((dict_get item ''doi'' = Some [] \<or> dict_get item ''doi'' = None)
         \<and> (dict_get item ''id_like'' = Some [] \<or> dict_get item ''id_like'' = None) \<longrightarrow>
          take 3 (compute_uid L item) \<noteq> ''id:''
          \<and> compute_uid L item =
              (if truthy (dict_get item ''link'')
                 then ''linkhash:'' @ take 16 (sha256 L (the (dict_get item ''link'')))
               else ''hash:'' @ take 16 (sha256 L (json_dumps_sorted L item))))
     \<and> ((dict_get item ''doi'' = Some [] \<or> dict_get item ''doi'' = None)
         \<and> (dict_get item ''id_like'' = Some [] \<or> dict_get item ''id_like'' = None)
         \<and> (dict_get item ''link'' = Some [] \<or> dict_get item ''link'' = None) \<longrightarrow>
          compute_uid L item = ''hash:'' @ take 16 (sha256 L (json_dumps_sorted L item)))"
proof -
  have sne: "sha256 L s \<noteq> []" for s
    using sh [rule_format, of s] by auto
  have lne: "y \<noteq> [] \<Longrightarrow> str_lower L y \<noteq> []" for y
    using lo by simp
  have tr: "truthy v \<longleftrightarrow> (\<exists>y. v = Some y \<and> y \<noteq> [])" for v
    by (cases v) auto
  show ?thesis
    by (auto simp: compute_uid_def Let_def tr sne lne)
qed

theorem compute_uid_empty_as_absent_witness:
  "(\<forall>s. length (sha256 example_lib s) = 64)
   \<and> \<not> (\<exists>s. s \<noteq> [] \<and> str_lower example_lib s = [])
   \<and> dict_get [(''link'', Some ''http://x/a''), (''id_like'', Some []), (''doi'', Some [])]
        ''doi'' = Some []
   \<and> compute_uid example_lib
        [(''link'', Some ''http://x/a''), (''id_like'', Some []), (''doi'', Some [])]
      = ''linkhash:'' @ take 16 (sha256 example_lib ''http://x/a'')
   \<and> compute_uid example_lib [(''link'', Some []), (''doi'', Some [])]
      = ''hash:'' @ take 16 (sha256 example_lib (json_dumps_sorted example_lib
           [(''link'', Some []), (''doi'', Some [])]))"
  using
    compute_uid_empty_as_absent [where L = example_lib and item =
      "[(''link'', Some ''http://x/a''), (''id_like'', Some []), (''doi'', Some [])]"]
    compute_uid_empty_as_absent [where L = example_lib and item =
      "[(''link'', Some []), (''doi'', Some [])]"]
  by (simp add: dict_get_def example_lib_def)

section \<open>Properties of the feed parser\<close>

lemma dict_get_update:
  "dict_get (AList.update k v d) k' = (if k' = k then v else dict_get d k')"
  by (simp add: dict_get_def update_conv')

lemma dict_get_add_item:
  "dict_get (add_item L d) k =
     (if k \<in> {''title'', ''pub_date'', ''doi'', ''journal''} then clean_text L (dict_get d k)
      else dict_get d k)"
  by (simp add: add_item_def Let_def dict_get_update)

lemma clean_text_None: "clean_text L s = None \<longleftrightarrow> s = None"
  by (simp add: clean_text_def split: option.splits)

lemma clean_text_none: "clean_text L None = None"
  by (simp add: clean_text_def)

lemma truthy_clean_text:
  "truthy (clean_text L s) \<longleftrightarrow>
     (\<exists>t. s = Some t \<and> strip (collapse_ws (html_unescape L t)) \<noteq> [])"
  by (cases s) (simp_all add: clean_text_def)

lemma parse_feed_root_items:
  "it \<in> set (parse_feed_root L root) \<Longrightarrow>
     (\<exists>item. it = add_item L (rdf_fields L item))
     \<or> (\<exists>item. it = add_item L (rss2_fields L item))
     \<or> (\<exists>entry. it = add_item L (atom_fields L entry))"
  by (auto simp: parse_feed_root_def split: if_splits option.splits)

lemma ex_clean_link:
  "clean_text example_lib (Some ''http://x/a  b'') = Some ''http://x/a b''"
  by (simp add: clean_text_def example_lib_def strip_def is_space_def)

lemma ex_clean_title: "clean_text example_lib (Some ''A  title'') = Some ''A title''"
  by (simp add: clean_text_def example_lib_def strip_def is_space_def)

lemma ex_clean_empty: "clean_text example_lib (Some []) = Some []"
  by (simp add: clean_text_def example_lib_def strip_def)

lemma ex_xml_text:
  "xml_text (Some '' '') = Some []"
  "xml_text (Some ''http://x/a  b'') = Some ''http://x/a  b''"
  "xml_text (Some ''A  title'') = Some ''A  title''"
  "xml_text (Some ''http://x/a'') = Some ''http://x/a''"
  "xml_text (Some ''T'') = Some ''T''"
  "xml_text None = None"
  by (simp_all add: xml_text_def strip_def is_space_def)

lemma ex_rdf_fields:
  "rdf_fields example_lib
     \<lparr>rdf_title = Some ''A  title'', rdf_dc_title = None, rdf_link = Some ''http://x/a  b'',
      rdf_about = None, rdf_dc_date = Some '' '', rdf_prism_doi = None,
      rdf_prism_publicationName = None, rdf_dc_identifier = None\<rparr>
   = [(''title'', Some ''A  title''), (''link'', Some ''http://x/a  b''),
      (''id_like'', Some ''http://x/a  b''), (''pub_date'', Some []), (''doi'', None),
      (''journal'', None)]"
  by (simp add: rdf_fields_def Let_def ex_xml_text py_or_def example_lib_def)

lemma ex_add_item:
  "add_item example_lib
     [(''title'', Some ''A  title''), (''link'', Some ''http://x/a  b''),
      (''id_like'', Some ''http://x/a  b''), (''pub_date'', Some []), (''doi'', None),
      (''journal'', None)]
   = [(''title'', Some ''A title''), (''link'', Some ''http://x/a  b''),
      (''id_like'', Some ''http://x/a  b''), (''pub_date'', Some []), (''doi'', None),
      (''journal'', None)]"
  by (simp add: add_item_def Let_def dict_get_def ex_clean_title ex_clean_empty clean_text_none)

text \<open>
  C5, as the code has it. Every item that \<^verbatim>\<open>parse_feed\<close> returns has been through
  \<^verbatim>\<open>add_item\<close>, which passes \<open>title\<close>, \<open>pub_date\<close>, \<open>doi\<close> and \<open>journal\<close> through
  \<^verbatim>\<open>clean_text\<close> (entity unescaping, white space collapsed, stripped) and stores \<open>link\<close>
  and \<open>id_like\<close> as they were extracted. \<^verbatim>\<open>clean_text\<close> gives \<open>None\<close> only for \<open>None\<close>: a
  field that is empty after the normalisation is stored as the empty string, which is
  falsy like \<open>None\<close>: the stored field is truthy exactly when the normalised text is
  not empty.
\<close>

theorem add_item_normalises:
  "(\<forall>it \<in> set (parse_feed_root L root).
       (\<exists>item. it = add_item L (rdf_fields L item))
     \<or> (\<exists>item. it = add_item L (rss2_fields L item))
     \<or> (\<exists>entry. it = add_item L (atom_fields L entry)))
   \<and> dict_get (add_item L d) ''title'' = clean_text L (dict_get d ''title'')
   \<and> dict_get (add_item L d) ''pub_date'' = clean_text L (dict_get d ''pub_date'')
   \<and> dict_get (add_item L d) ''doi'' = clean_text L (dict_get d ''doi'')
   \<and> dict_get (add_item L d) ''journal'' = clean_text L (dict_get d ''journal'')
   \<and> dict_get (add_item L d) ''link'' = dict_get d ''link''
   \<and> dict_get (add_item L d) ''id_like'' = dict_get d ''id_like''
   \<and> (\<forall>k \<in> {''title'', ''pub_date'', ''doi'', ''journal''}.
         (dict_get (add_item L d) k = None \<longleftrightarrow> dict_get d k = None)
       \<and> (truthy (dict_get (add_item L d) k) \<longleftrightarrow>
            (\<exists>t. dict_get d k = Some t \<and> strip (collapse_ws (html_unescape L t)) \<noteq> [])))"
proof -
  have "\<forall>it \<in> set (parse_feed_root L root).
       (\<exists>item. it = add_item L (rdf_fields L item))
     \<or> (\<exists>item. it = add_item L (rss2_fields L item))
     \<or> (\<exists>entry. it = add_item L (atom_fields L entry))"
    using parse_feed_root_items by blast
  then show ?thesis
    by (simp add: dict_get_add_item clean_text_None truthy_clean_text)
qed

lemma ex_rdf_parsed:
  "parse_feed_root example_lib ex_rdf
   = [[(''title'', Some ''A title''), (''link'', Some ''http://x/a  b''),
       (''id_like'', Some ''http://x/a  b''), (''pub_date'', Some []), (''doi'', None),
       (''journal'', None)]]"
  by (simp add: parse_feed_root_def ex_rdf_def ex_rdf_fields ex_add_item)

theorem add_item_normalises_witness:
  "set (parse_feed_root example_lib ex_rdf)
     = {add_item example_lib
         [(''title'', Some ''A  title''), (''link'', Some ''http://x/a  b''),
          (''id_like'', Some ''http://x/a  b''), (''pub_date'', Some []), (''doi'', None),
          (''journal'', None)]}
   \<and> dict_get (add_item example_lib
         [(''title'', Some ''A  title''), (''link'', Some ''http://x/a  b''),
          (''id_like'', Some ''http://x/a  b''), (''pub_date'', Some []), (''doi'', None),
          (''journal'', None)]) ''title'' = Some ''A title''
   \<and> dict_get (add_item example_lib
         [(''title'', Some ''A  title''), (''link'', Some ''http://x/a  b''),
          (''id_like'', Some ''http://x/a  b''), (''pub_date'', Some []), (''doi'', None),
          (''journal'', None)]) ''link'' = Some ''http://x/a  b''
   \<and> \<not> truthy (dict_get (add_item example_lib
         [(''title'', Some ''A  title''), (''link'', Some ''http://x/a  b''),
          (''id_like'', Some ''http://x/a  b''), (''pub_date'', Some []), (''doi'', None),
          (''journal'', None)]) ''pub_date'')"
  using add_item_normalises [of example_lib ex_rdf
         "[(''title'', Some ''A  title''), (''link'', Some ''http://x/a  b''),
          (''id_like'', Some ''http://x/a  b''), (''pub_date'', Some []), (''doi'', None),
          (''journal'', None)]"]
  by (simp add: ex_rdf_parsed ex_add_item dict_get_def)

text \<open>
  C5 as stated fails: in the item parsed from an RDF entry whose link has two spaces in a
  row and whose date is one space, \<open>link\<close> and \<open>id_like\<close> keep the two spaces, where
  \<^verbatim>\<open>clean_text\<close> would leave one, and \<open>pub_date\<close> is stored as the empty string, not as
  \<open>None\<close>.
\<close>

theorem link_not_normalised:
  "parse_feed_root example_lib ex_rdf
     = [[(''title'', Some ''A title''), (''link'', Some ''http://x/a  b''),
         (''id_like'', Some ''http://x/a  b''), (''pub_date'', Some []), (''doi'', None),
         (''journal'', None)]]
   \<and> clean_text example_lib (Some ''http://x/a  b'') = Some ''http://x/a b''"
  by (simp add: ex_rdf_parsed ex_clean_link)

lemma compute_uid_id_like:
  "\<not> truthy (dict_get item ''doi'') \<Longrightarrow> dict_get item ''id_like'' = Some i \<Longrightarrow> i \<noteq> []
     \<Longrightarrow> compute_uid L item = ''id:'' @ i"
  by (simp add: compute_uid_def)

lemma compute_uid_not_linkhash:
  assumes "truthy (dict_get item ''link'') \<longrightarrow> truthy (dict_get item ''id_like'')"
  shows "take 9 (compute_uid L item) \<noteq> ''linkhash:''"
  using assms by (simp add: compute_uid_def Let_def)

lemma truthy_py_or: "truthy (py_or a b) \<longleftrightarrow> truthy a \<or> truthy b"
  by (simp add: py_or_def)

lemma py_or_falsy: "\<not> truthy a \<Longrightarrow> py_or a b = b"
  by (simp add: py_or_def)

lemma link_id_like_rdf:
  "dict_get (rdf_fields L item) ''link'' = xml_text (rdf_link item)"
  "dict_get (rdf_fields L item) ''id_like''
     = py_or (py_or (rdf_about item) (xml_text (rdf_dc_identifier item))) (xml_text (rdf_link item))"
  "dict_get (rdf_fields L item) ''doi''
     = py_or (xml_text (rdf_prism_doi item))
         (guess_doi L [xml_text (rdf_dc_identifier item), xml_text (rdf_link item)])"
  by (simp_all add: rdf_fields_def Let_def dict_get_def)

lemma link_id_like_rss2:
  "dict_get (rss2_fields L item) ''link'' = xml_text (r_link item)"
  "dict_get (rss2_fields L item) ''id_like'' = py_or (xml_text (r_guid item)) (xml_text (r_link item))"
  "dict_get (rss2_fields L item) ''doi''
     = guess_doi L [xml_text (r_guid item), xml_text (r_description item), xml_text (r_link item)]"
  by (simp_all add: rss2_fields_def Let_def dict_get_def)

lemma link_id_like_atom:
  "dict_get (atom_fields L entry) ''link'' = atom_link entry"
  "dict_get (atom_fields L entry) ''id_like'' = py_or (atom_id entry) (atom_link entry)"
  "dict_get (atom_fields L entry) ''doi'' = guess_doi L [atom_id entry, atom_link entry]"
  by (simp_all add: atom_fields_def Let_def dict_get_def)

lemma parsed_item_id_like:
  assumes "it \<in> set (parse_feed_root L root)"
  shows "truthy (dict_get it ''link'') \<longrightarrow> truthy (dict_get it ''id_like'')"
  using parse_feed_root_items [OF assms]
  by (auto simp: dict_get_add_item link_id_like_rdf link_id_like_rss2 link_id_like_atom
        truthy_py_or)

lemma guess_doi_link:
  "\<not> truthy i \<Longrightarrow> re_doi_feed L l = None \<Longrightarrow> guess_doi L [i, Some l] = None"
  by (cases "l = []") simp_all

lemma atom_link_nested:
  "at_alternate_link entry = Some a \<Longrightarrow> 0 < l_children a \<Longrightarrow> atom_link entry = l_href a"
  by (simp add: atom_link_def el_or_def)

lemma atom_link_plain:
  "(case at_alternate_link entry of None \<Rightarrow> True | Some a \<Rightarrow> l_children a = 0)
     \<Longrightarrow> atom_link entry = (case at_link entry of None \<Rightarrow> None | Some e \<Rightarrow> l_href e)"
  by (simp add: atom_link_def el_or_def split: option.splits)

lemma compute_uid_hash:
  "\<not> truthy (dict_get item ''doi'') \<Longrightarrow> \<not> truthy (dict_get item ''id_like'')
     \<Longrightarrow> \<not> truthy (dict_get item ''link'')
     \<Longrightarrow> compute_uid L item = ''hash:'' @ take 16 (sha256 L (json_dumps_sorted L item))"
  by (simp add: compute_uid_def)

lemma atom_link_uid:
  assumes "\<not> truthy (atom_id entry)" "atom_link entry = Some l" "l \<noteq> []"
    "re_doi_feed L l = None"
  shows "compute_uid L (add_item L (atom_fields L entry)) = ''id:'' @ l"
  using assms guess_doi_link [of "atom_id entry" L l]
  by (intro compute_uid_id_like)
     (simp_all add: dict_get_add_item link_id_like_atom py_or_falsy clean_text_none)

text \<open>
  C6, as the code has it. All three dialects store \<open>guid or link\<close> (\<open>about or
  dc_identifier or link\<close>, \<open>entry_id or link\<close>) as \<open>id_like\<close>. So an RSS 2.0 or RDF item
  without doi and without guid, about or identifier, whose link is \<open>l\<close>, gets the uid \<open>id:\<close>
  followed by \<open>l\<close>, which depends on the link only. The same holds for an Atom entry
  without id whose link \<open>l\<close> is the \<open>href\<close> of an alternate link that has children, or,
  when no alternate link is found, the \<open>href\<close> of the \<open>link\<close> element without namespace.
  No item that \<^verbatim>\<open>parse_feed\<close> returns gets a uid that starts with \<open>linkhash:\<close>.
\<close>

theorem parsed_link_only_uid:
  "(\<not> truthy (xml_text (r_guid item)) \<and> xml_text (r_link item) = Some l \<and> l \<noteq> []
      \<and> guess_doi L [xml_text (r_guid item), xml_text (r_description item),
                      xml_text (r_link item)] = None
      \<longrightarrow> compute_uid L (add_item L (rss2_fields L item)) = ''id:'' @ l)
   \<and> (\<not> truthy (rdf_about ritem) \<and> \<not> truthy (xml_text (rdf_dc_identifier ritem))
      \<and> xml_text (rdf_link ritem) = Some l \<and> l \<noteq> []
      \<and> \<not> truthy (xml_text (rdf_prism_doi ritem))
      \<and> guess_doi L [xml_text (rdf_dc_identifier ritem), xml_text (rdf_link ritem)] = None
      \<longrightarrow> compute_uid L (add_item L (rdf_fields L ritem)) = ''id:'' @ l)
   \<and> (\<not> truthy (atom_id nentry)
      \<and> at_alternate_link nentry = Some a \<and> 0 < l_children a \<and> l_href a = Some l \<and> l \<noteq> []
      \<and> re_doi_feed L l = None
      \<longrightarrow> compute_uid L (add_item L (atom_fields L nentry)) = ''id:'' @ l)
   \<and> (\<not> truthy (atom_id pentry)
      \<and> at_alternate_link pentry = None
      \<and> at_link pentry = Some e \<and> l_href e = Some l \<and> l \<noteq> []
      \<and> re_doi_feed L l = None
      \<longrightarrow> compute_uid L (add_item L (atom_fields L pentry)) = ''id:'' @ l)
   \<and> (\<forall>it \<in> set (parse_feed_root L root). take 9 (compute_uid L it) \<noteq> ''linkhash:'')"
proof -
  have a: "compute_uid L (add_item L (rss2_fields L item)) = ''id:'' @ l"
    if "\<not> truthy (xml_text (r_guid item))" "xml_text (r_link item) = Some l" "l \<noteq> []"
      "guess_doi L [xml_text (r_guid item), xml_text (r_description item),
                      xml_text (r_link item)] = None"
    using that
    by (intro compute_uid_id_like)
       (simp_all add: dict_get_add_item link_id_like_rss2 py_or_falsy clean_text_none)
  have b: "compute_uid L (add_item L (rdf_fields L ritem)) = ''id:'' @ l"
    if "\<not> truthy (rdf_about ritem)" "\<not> truthy (xml_text (rdf_dc_identifier ritem))"
      "xml_text (rdf_link ritem) = Some l" "l \<noteq> []"
      "\<not> truthy (xml_text (rdf_prism_doi ritem))"
      "guess_doi L [xml_text (rdf_dc_identifier ritem), xml_text (rdf_link ritem)] = None"
    using that
    by (intro compute_uid_id_like)
       (simp_all add: dict_get_add_item link_id_like_rdf py_or_falsy clean_text_none)
  have c1: "compute_uid L (add_item L (atom_fields L nentry)) = ''id:'' @ l"
    if "\<not> truthy (atom_id nentry)" "at_alternate_link nentry = Some a" "0 < l_children a"
      "l_href a = Some l" "l \<noteq> []" "re_doi_feed L l = None"
    using that by (intro atom_link_uid) (simp_all add: atom_link_nested)
  have c2: "compute_uid L (add_item L (atom_fields L pentry)) = ''id:'' @ l"
    if "\<not> truthy (atom_id pentry)" "at_alternate_link pentry = None"
      "at_link pentry = Some e" "l_href e = Some l" "l \<noteq> []" "re_doi_feed L l = None"
    using that by (intro atom_link_uid) (simp_all add: atom_link_plain)
  have d: "\<forall>it \<in> set (parse_feed_root L root). take 9 (compute_uid L it) \<noteq> ''linkhash:''"
    using parsed_item_id_like compute_uid_not_linkhash by blast
  show ?thesis
    using a b c1 c2 d by blast
qed

text \<open>
  The other Atom entries. In \<^verbatim>\<open>entry.find('atom:link[@rel="alternate"]', NS) or
  entry.find('link')\<close> an element without children is falsy, so an alternate link without
  children is passed over. With a \<open>link\<close> element without namespace its \<open>href\<close> is taken;
  without one the link is lost: \<open>link\<close>, \<open>id_like\<close> and \<open>doi\<close> of an entry without id are
  \<open>None\<close>, the uid is \<open>hash:\<close> with the hash of all fields, and the item is the same
  whatever the \<open>href\<close> of the alternate link is.
\<close>

lemma atom_childless_link_passed_over:
  assumes "\<not> truthy (atom_id entry)" "at_alternate_link entry = Some a" "l_children a = 0"
    "at_link entry = Some e" "l_href e = Some l" "l \<noteq> []" "re_doi_feed L l = None"
  shows "compute_uid L (add_item L (atom_fields L entry)) = ''id:'' @ l"
  using assms by (intro atom_link_uid) (simp_all add: atom_link_plain)

lemma atom_childless_link_lost:
  assumes i: "\<not> truthy (atom_id entry)"
    and n: "case at_alternate_link entry of None \<Rightarrow> True | Some a \<Rightarrow> l_children a = 0"
    and p: "at_link entry = None"
  shows "dict_get (add_item L (atom_fields L entry)) ''link'' = None"
    and "dict_get (add_item L (atom_fields L entry)) ''id_like'' = None"
    and "dict_get (add_item L (atom_fields L entry)) ''doi'' = None"
    and "compute_uid L (add_item L (atom_fields L entry))
           = ''hash:'' @ take 16 (sha256 L (json_dumps_sorted L (add_item L (atom_fields L entry))))"
    and "add_item L (atom_fields L
             (entry\<lparr>at_alternate_link := Some \<lparr>l_children = 0, l_href = h\<rparr>\<rparr>))
           = add_item L (atom_fields L entry)"
proof -
  have l: "atom_link entry = None"
    using n p by (simp add: atom_link_plain)
  have l': "atom_link (entry\<lparr>at_alternate_link := Some \<lparr>l_children = 0, l_href = h\<rparr>\<rparr>) = None"
    using p by (simp add: atom_link_def el_or_def)
  show 1: "dict_get (add_item L (atom_fields L entry)) ''link'' = None"
    by (simp add: dict_get_add_item link_id_like_atom l)
  show 2: "dict_get (add_item L (atom_fields L entry)) ''id_like'' = None"
    using i by (simp add: dict_get_add_item link_id_like_atom l py_or_falsy)
  show 3: "dict_get (add_item L (atom_fields L entry)) ''doi'' = None"
    using i by (simp add: dict_get_add_item link_id_like_atom l clean_text_none)
  show "compute_uid L (add_item L (atom_fields L entry))
          = ''hash:'' @ take 16 (sha256 L (json_dumps_sorted L (add_item L (atom_fields L entry))))"
    by (rule compute_uid_hash) (simp_all add: 1 2 3)
  have "atom_fields L (entry\<lparr>at_alternate_link := Some \<lparr>l_children = 0, l_href = h\<rparr>\<rparr>)
          = atom_fields L entry"
    by (simp add: atom_fields_def l l' atom_id_def)
  then show "add_item L (atom_fields L
             (entry\<lparr>at_alternate_link := Some \<lparr>l_children = 0, l_href = h\<rparr>\<rparr>))
           = add_item L (atom_fields L entry)"
    by simp
qed

lemma ex_re_doi_feed: "re_doi_feed example_lib s = None"
  by (simp add: example_lib_def)

lemma ex_clean_T: "clean_text example_lib (Some ''T'') = Some ''T''"
  by (simp add: clean_text_def example_lib_def strip_def is_space_def)

lemma ex_rss2_fields:
  "rss2_fields example_lib
     \<lparr>r_title = Some ''T'', r_dc_title = None, r_link = Some ''http://x/a'',
      r_guid = None, r_pubDate = None, r_dc_date = None, r_description = None\<rparr>
   = [(''title'', Some ''T''), (''link'', Some ''http://x/a''), (''id_like'', Some ''http://x/a''),
      (''pub_date'', None), (''doi'', None), (''journal'', None)]"
  by (simp add: rss2_fields_def Let_def ex_xml_text py_or_def example_lib_def)

lemma ex_rss2_parsed:
  "parse_feed_root example_lib ex_rss2
   = [[(''title'', Some ''T''), (''link'', Some ''http://x/a''), (''id_like'', Some ''http://x/a''),
       (''pub_date'', None), (''doi'', None), (''journal'', None)]]"
  by (simp add: parse_feed_root_def ex_rss2_def ex_rss2_fields add_item_def Let_def dict_get_def
        ex_clean_T clean_text_none)

lemma ex_atom_id:
  "atom_id ex_atom_std = None" "atom_id ex_atom_plain = None" "atom_id ex_atom_nested = None"
  by (simp_all add: atom_id_def ex_atom_std_def ex_atom_plain_def ex_atom_nested_def
        ex_xml_text py_or_def)

lemma ex_atom_std_fields:
  "atom_fields example_lib ex_atom_std
   = [(''title'', Some ''T''), (''link'', None), (''id_like'', None),
      (''pub_date'', None), (''doi'', None), (''journal'', None)]"
  by (simp add: atom_fields_def Let_def ex_atom_id atom_link_def el_or_def py_or_def)
     (simp add: ex_atom_std_def ex_xml_text)

lemma ex_atom_std_item:
  "add_item example_lib (atom_fields example_lib ex_atom_std)
   = [(''title'', Some ''T''), (''link'', None), (''id_like'', None),
      (''pub_date'', None), (''doi'', None), (''journal'', None)]"
  by (simp add: ex_atom_std_fields add_item_def Let_def dict_get_def ex_clean_T clean_text_none)

lemma ex_atom_parsed:
  "parse_feed_root example_lib ex_atom
   = [[(''title'', Some ''T''), (''link'', None), (''id_like'', None),
       (''pub_date'', None), (''doi'', None), (''journal'', None)]]"
  by (simp add: parse_feed_root_def ex_atom_def ex_atom_std_item)

lemma ex_sha256: "take 16 (sha256 example_lib s) = ''0000000000000000''"
  by (simp add: example_lib_def eval_nat_numeral)

text \<open>
  The entry of a standard Atom feed, with one alternate link without children and the
  \<open>href\<close> \<open>http://x/a\<close>: the item has no link and its uid starts with \<open>hash:\<close>.
\<close>

lemma ex_atom_std_uid:
  "at_alternate_link ex_atom_std = Some \<lparr>l_children = 0, l_href = Some ''http://x/a''\<rparr>
   \<and> parse_feed_root example_lib ex_atom
     = [[(''title'', Some ''T''), (''link'', None), (''id_like'', None),
         (''pub_date'', None), (''doi'', None), (''journal'', None)]]
   \<and> map (compute_uid example_lib) (parse_feed_root example_lib ex_atom)
     = [''hash:0000000000000000'']"
proof -
  have "compute_uid example_lib (add_item example_lib (atom_fields example_lib ex_atom_std))
          = ''hash:0000000000000000''"
    using atom_childless_link_lost(4) [of ex_atom_std example_lib]
    by (simp add: ex_atom_id ex_sha256) (simp add: ex_atom_std_def)
  then show ?thesis
    by (simp add: ex_atom_parsed ex_atom_std_item) (simp add: ex_atom_std_def)
qed

theorem parsed_link_only_uid_witness:
  "compute_uid example_lib
      (add_item example_lib (rss2_fields example_lib
         \<lparr>r_title = Some ''T'', r_dc_title = None, r_link = Some ''http://x/a'',
          r_guid = None, r_pubDate = None, r_dc_date = None, r_description = None\<rparr>))
     = ''id:http://x/a''
   \<and> compute_uid example_lib
      (add_item example_lib (rdf_fields example_lib
         \<lparr>rdf_title = Some ''T'', rdf_dc_title = None, rdf_link = Some ''http://x/a'',
          rdf_about = None, rdf_dc_date = None, rdf_prism_doi = None,
          rdf_prism_publicationName = None, rdf_dc_identifier = None\<rparr>))
     = ''id:http://x/a''
   \<and> at_alternate_link ex_atom_nested = Some \<lparr>l_children = 1, l_href = Some ''http://x/a''\<rparr>
   \<and> compute_uid example_lib (add_item example_lib (atom_fields example_lib ex_atom_nested))
     = ''id:http://x/a''
   \<and> at_alternate_link ex_atom_plain = None
   \<and> at_link ex_atom_plain = Some \<lparr>l_children = 0, l_href = Some ''http://x/a''\<rparr>
   \<and> compute_uid example_lib (add_item example_lib (atom_fields example_lib ex_atom_plain))
     = ''id:http://x/a''
   \<and> set (parse_feed_root example_lib ex_rss2)
     = {[(''title'', Some ''T''), (''link'', Some ''http://x/a''), (''id_like'', Some ''http://x/a''),
         (''pub_date'', None), (''doi'', None), (''journal'', None)]}
   \<and> take 9 (compute_uid example_lib
        [(''title'', Some ''T''), (''link'', Some ''http://x/a''), (''id_like'', Some ''http://x/a''),
         (''pub_date'', None), (''doi'', None), (''journal'', None)]) \<noteq> ''linkhash:''"
proof -
  note t = parsed_link_only_uid [where L = example_lib and l = "''http://x/a''"
      and root = ex_rss2
      and item = "\<lparr>r_title = Some ''T'', r_dc_title = None, r_link = Some ''http://x/a'',
          r_guid = None, r_pubDate = None, r_dc_date = None, r_description = None\<rparr>"
      and ritem = "\<lparr>rdf_title = Some ''T'', rdf_dc_title = None, rdf_link = Some ''http://x/a'',
          rdf_about = None, rdf_dc_date = None, rdf_prism_doi = None,
          rdf_prism_publicationName = None, rdf_dc_identifier = None\<rparr>"
      and nentry = ex_atom_nested
      and a = "\<lparr>l_children = 1, l_href = Some ''http://x/a''\<rparr>"
      and pentry = ex_atom_plain
      and e = "\<lparr>l_children = 0, l_href = Some ''http://x/a''\<rparr>"]
  have a: "compute_uid example_lib
      (add_item example_lib (rss2_fields example_lib
         \<lparr>r_title = Some ''T'', r_dc_title = None, r_link = Some ''http://x/a'',
          r_guid = None, r_pubDate = None, r_dc_date = None, r_description = None\<rparr>))
     = ''id:'' @ ''http://x/a''"
    by (rule t [THEN conjunct1, THEN mp]) (simp add: ex_xml_text ex_re_doi_feed)
  have b: "compute_uid example_lib
      (add_item example_lib (rdf_fields example_lib
         \<lparr>rdf_title = Some ''T'', rdf_dc_title = None, rdf_link = Some ''http://x/a'',
          rdf_about = None, rdf_dc_date = None, rdf_prism_doi = None,
          rdf_prism_publicationName = None, rdf_dc_identifier = None\<rparr>))
     = ''id:'' @ ''http://x/a''"
    by (rule t [THEN conjunct2, THEN conjunct1, THEN mp]) (simp add: ex_xml_text ex_re_doi_feed)
  have n: "at_alternate_link ex_atom_nested = Some \<lparr>l_children = 1, l_href = Some ''http://x/a''\<rparr>"
    by (simp add: ex_atom_nested_def)
  have p: "at_alternate_link ex_atom_plain = None"
    "at_link ex_atom_plain = Some \<lparr>l_children = 0, l_href = Some ''http://x/a''\<rparr>"
    by (simp_all add: ex_atom_plain_def)
  have c1: "compute_uid example_lib (add_item example_lib (atom_fields example_lib ex_atom_nested))
     = ''id:'' @ ''http://x/a''"
    by (rule t [THEN conjunct2, THEN conjunct2, THEN conjunct1, THEN mp])
       (simp add: ex_atom_id ex_re_doi_feed n)
  have c2: "compute_uid example_lib (add_item example_lib (atom_fields example_lib ex_atom_plain))
     = ''id:'' @ ''http://x/a''"
    by (rule t [THEN conjunct2, THEN conjunct2, THEN conjunct2, THEN conjunct1, THEN mp])
       (simp add: ex_atom_id ex_re_doi_feed p)
  have d: "\<forall>it \<in> set (parse_feed_root example_lib ex_rss2).
             take 9 (compute_uid example_lib it) \<noteq> ''linkhash:''"
    by (rule t [THEN conjunct2, THEN conjunct2, THEN conjunct2, THEN conjunct2])
  have d': "set (parse_feed_root example_lib ex_rss2)
     = {[(''title'', Some ''T''), (''link'', Some ''http://x/a''), (''id_like'', Some ''http://x/a''),
         (''pub_date'', None), (''doi'', None), (''journal'', None)]}
   \<and> take 9 (compute_uid example_lib
        [(''title'', Some ''T''), (''link'', Some ''http://x/a''), (''id_like'', Some ''http://x/a''),
         (''pub_date'', None), (''doi'', None), (''journal'', None)]) \<noteq> ''linkhash:''"
    using d by (simp add: ex_rss2_parsed)
  show ?thesis
    using a b c1 c2 n p d' by simp
qed

text \<open>
  C6 as stated fails: the one item of an RSS 2.0 feed with a title and the link
  \<open>http://x/a\<close>, without guid and without description, gets the uid \<open>id:http://x/a\<close>,
  which does not start with \<open>linkhash:\<close>.
\<close>

theorem link_only_uid_is_id:
  "map (compute_uid example_lib) (parse_feed_root example_lib ex_rss2) = [''id:http://x/a'']
   \<and> take 9 ''id:http://x/a'' \<noteq> ''linkhash:''"
  by (simp add: ex_rss2_parsed compute_uid_def dict_get_def)

section \<open>Properties of the article extraction\<close>

lemma extract_from_jsonld_keys:
  "extract_from_jsonld L obj = Inr base \<Longrightarrow>
     map fst base = [''title'', ''abstract'', ''date_published'', ''journal'', ''type'', ''doi'']"
  by (auto simp: extract_from_jsonld_def Let_def split: sum.splits)

lemma ex_page_pick:
  "pick_article_obj (parse_jsonld ex_page)
     = Inr (Some [(''@type'', JStr ''Article''), (''description'', JStr ''D'')])"
  by (simp add: parse_jsonld_def ex_page_def json_or_def obj_get_def article_types_def)

lemma ex_page_clean: "clean_text ex_page_lib (Some ''D'') = Some ''D''"
  by (simp add: clean_text_def ex_page_lib_def example_lib_def strip_def is_space_def)

lemma ex_page_jsonld:
  "extract_from_jsonld ex_page_lib [(''@type'', JStr ''Article''), (''description'', JStr ''D'')]
     = Inr [(''title'', None), (''abstract'', Some ''D''), (''date_published'', None),
            (''journal'', None), (''type'', None), (''doi'', None)]"
  by (simp add: extract_from_jsonld_def Let_def json_or_def obj_get_def doi_of_identifier_def
        clean_json_def journal_of_def ex_page_clean clean_text_none)

lemma ex_page_meta: "select_meta ex_page ''citation_title'' = Some ''T''"
  by (simp add: select_meta_def ex_page_def strip_def is_space_def)

text \<open>
  C3 at a failing input. The page has a structured-data block of type \<open>Article\<close> with a
  description and without headline or name, and a meta tag \<open>citation_title\<close> with the
  content \<open>T\<close>. \<^verbatim>\<open>extract_from_jsonld\<close> returns all six keys, \<open>title\<close> with the value
  \<open>None\<close>; \<^verbatim>\<open>setdefault\<close> stores only under a key that is missing; so the title of the
  result is \<open>None\<close> and the meta tag is not used.
\<close>

theorem meta_title_not_used:
  "select_meta ex_page ''citation_title'' = Some ''T''
   \<and> extract_article_fields ex_page_lib ''<html>'' ''http://x/a''
     = Inr [(''title'', None), (''abstract'', Some ''D''), (''date_published'', None),
            (''journal'', None), (''type'', None), (''doi'', None),
            (''article_url'', Some ''http://x/a'')]"
proof -
  have s: "soupify ex_page_lib h = ex_page" for h
    by (simp add: ex_page_lib_def)
  have f: "fill_from_page ex_page_lib ex_page ''http://x/a''
             [(''title'', None), (''abstract'', Some ''D''), (''date_published'', None),
              (''journal'', None), (''type'', None), (''doi'', None)]
           = [(''title'', None), (''abstract'', Some ''D''), (''date_published'', None),
              (''journal'', None), (''type'', None), (''doi'', None),
              (''article_url'', Some ''http://x/a'')]"
    by (simp add: fill_from_page_def Let_def setdefault_def dict_get_def)
  show ?thesis
    by (simp add: ex_page_meta extract_article_fields_def Let_def s ex_page_pick
          jsonld_fields_def ex_page_jsonld f)
qed

lemma setdefault_present: "k \<in> set (map fst d) \<Longrightarrow> setdefault d k v = d"
  by (cases "map_of d k") (simp_all add: setdefault_def map_of_eq_None_iff)

lemma dict_get_abstract_heuristic:
  "k \<noteq> ''abstract'' \<Longrightarrow> dict_get (abstract_heuristic L soup base) k = dict_get base k"
  by (simp add: abstract_heuristic_def Let_def dict_get_update split: option.splits)

text \<open>
  The same in general: whenever a structured-data object is found, the five fields that
  the meta tag layer sets are those of the structured data, empty or not, whatever the
  meta tags hold.
\<close>

lemma meta_layer_skipped:
  assumes e: "extract_from_jsonld L obj = Inr base"
    and k: "k \<in> {''title'', ''journal'', ''doi'', ''date_published'', ''type''}"
  shows "dict_get (fill_from_page L soup url base) k = dict_get base k"
proof -
  have keys: "map fst base = [''title'', ''abstract'', ''date_published'', ''journal'', ''type'', ''doi'']"
    using e by (rule extract_from_jsonld_keys)
  have sd: "setdefault base k' v = base"
    if "k' \<in> {''title'', ''abstract'', ''date_published'', ''journal'', ''type'', ''doi''}" for k' v
    by (rule setdefault_present) (use that in \<open>simp only: keys\<close>, simp)
  have na: "k \<noteq> ''abstract''" and nu: "k \<noteq> ''article_url''"
    using k by auto
  show ?thesis
    by (simp add: fill_from_page_def Let_def sd dict_get_update nu
          dict_get_abstract_heuristic [OF na])
qed

section \<open>Properties of the pipeline\<close>

text \<open>
  \<^verbatim>\<open>translate_openai_en2zh\<close> returns as many texts as it is given, so the unpacking of
  its result into \<open>title_cn\<close> and \<open>abstract_cn\<close> does not raise.
\<close>

lemma length_translate_chunks: "length (fst (translate_chunks E cfg texts w)) = length texts"
  by (induction texts arbitrary: w) (simp_all add: case_prod_beta Let_def)

lemma length_translate_openai_en2zh:
  "length (fst (translate_openai_en2zh E cfg texts w)) = length texts"
  by (simp add: translate_openai_en2zh_def length_translate_chunks)

lemma insert_or_ignore_other: "k' \<noteq> k \<Longrightarrow> insert_or_ignore tbl k row k' = tbl k'"
  by (simp add: insert_or_ignore_def split: option.splits)

lemma insert_or_ignore_keeps: "tbl k' = Some r \<Longrightarrow> insert_or_ignore tbl k row k' = Some r"
  by (cases "k' = k") (simp_all add: insert_or_ignore_other insert_or_ignore_present)

lemma insert_or_ignore_at:
  "insert_or_ignore tbl k row k = Some (case tbl k of None \<Rightarrow> row | Some r \<Rightarrow> r)"
  by (simp add: insert_or_ignore_def split: option.splits)

lemma frame_store_article:
  "feeds (fst (store_article L E cfg feed_url it uid obj fj ff s)) = feeds s"
  "article_log (fst (store_article L E cfg feed_url it uid obj fj ff s)) = article_log s"
  by (simp_all add: store_article_def Let_def case_prod_beta frame_mark_seen frame_upsert_article)

lemma seen_store_article:
  "seen s u = Some r \<Longrightarrow>
     seen (fst (store_article L E cfg feed_url it uid obj fj ff s)) u = Some r"
  by (simp add: store_article_def Let_def case_prod_beta seen_mark_seen frame_upsert_article
        insert_or_ignore_keeps)

lemma process_item_cases:
  obtains (key_error) "dict_get it ''_uid'' = None"
      "process_item L E cfg feed_url it s = (s, Inl KeyError)"
    | (fetch_failed) uid where "dict_get it ''_uid'' = Some uid"
      "fst (fetch_article E (dict_get it ''link'') (world s)) = None"
      "process_item L E cfg feed_url it s =
         (mark_seen E (s\<lparr>article_log := article_log s @ [uid],
                          world := snd (fetch_article E (dict_get it ''link'') (world s))\<rparr>)
            uid feed_url (or_empty (dict_get it ''link'')) (dict_get it ''doi'')
            (dict_get it ''pub_date''), Inr None)"
    | (raised) uid e where "dict_get it ''_uid'' = Some uid"
      "process_item L E cfg feed_url it s =
         (s\<lparr>article_log := article_log s @ [uid],
            world := snd (fetch_article E (dict_get it ''link'') (world s))\<rparr>, Inl e)"
    | (stored) uid obj fj ff where "dict_get it ''_uid'' = Some uid"
      "process_item L E cfg feed_url it s =
         (fst (store_article L E cfg feed_url it uid obj fj ff
                 (s\<lparr>article_log := article_log s @ [uid],
                    world := snd (fetch_article E (dict_get it ''link'') (world s))\<rparr>)),
          Inr (Some (snd (store_article L E cfg feed_url it uid obj fj ff
                 (s\<lparr>article_log := article_log s @ [uid],
                    world := snd (fetch_article E (dict_get it ''link'') (world s))\<rparr>)))))"
proof (cases "dict_get it ''_uid''")
  case None
  then show ?thesis
    using key_error by (simp add: process_item_def)
next
  case (Some uid)
  show ?thesis
  proof (cases "fst (fetch_article E (dict_get it ''link'') (world s))")
    case None
    then show ?thesis
      using Some fetch_failed [of uid] by (simp add: process_item_def Let_def case_prod_beta)
  next
    case html: (Some html)
    show ?thesis
    proof (cases "pick_article_obj (parse_jsonld (soupify L html))")
      case (Inl e)
      then show ?thesis
        using Some html raised [of uid e] by (simp add: process_item_def Let_def case_prod_beta)
    next
      case obj: (Inr obj)
      show ?thesis
      proof (cases "jsonld_fields L obj")
        case (Inl e)
        then show ?thesis
          using Some html obj raised [of uid e]
          by (simp add: process_item_def Let_def case_prod_beta)
      next
        case fj: (Inr fj)
        show ?thesis
        proof (cases "extract_article_fields L html (or_empty (dict_get it ''link''))")
          case (Inl e)
          then show ?thesis
            using Some html obj fj raised [of uid e]
            by (simp add: process_item_def Let_def case_prod_beta)
        next
          case (Inr ff)
          then show ?thesis
            using Some html obj fj stored [of uid obj fj ff]
            by (simp add: process_item_def Let_def case_prod_beta)
        qed
      qed
    qed
  qed
qed

lemma feeds_process_item: "feeds (fst (process_item L E cfg feed_url it s)) = feeds s"
  by (cases L E cfg feed_url it s rule: process_item_cases)
     (simp_all add: frame_mark_seen frame_store_article)

lemma log_process_item:
  "article_log (fst (process_item L E cfg feed_url it s))
     = article_log s @ (case dict_get it ''_uid'' of None \<Rightarrow> [] | Some uid \<Rightarrow> [uid])"
  by (cases L E cfg feed_url it s rule: process_item_cases)
     (simp_all add: frame_mark_seen frame_store_article)

lemma seen_process_item:
  "seen s u = Some r \<Longrightarrow> seen (fst (process_item L E cfg feed_url it s)) u = Some r"
  by (cases L E cfg feed_url it s rule: process_item_cases)
     (simp_all add: seen_mark_seen insert_or_ignore_keeps seen_store_article)

lemma process_items_step:
  "process_items L E cfg feed_url (it # new_items) s todays =
     (case snd (process_item L E cfg feed_url it s) of
        Inl e \<Rightarrow> (fst (process_item L E cfg feed_url it s), Inl e)
      | Inr None \<Rightarrow>
          process_items L E cfg feed_url new_items (fst (process_item L E cfg feed_url it s)) todays
      | Inr (Some na) \<Rightarrow>
          process_items L E cfg feed_url new_items (fst (process_item L E cfg feed_url it s))
            (todays @ [na]))"
  by (simp split: prod.splits sum.splits option.splits)

lemma feeds_process_items:
  "feeds (fst (process_items L E cfg feed_url new_items s todays)) = feeds s"
proof (induction new_items arbitrary: s todays)
  case Nil
  show ?case by simp
next
  case (Cons it new_items)
  show ?case
    unfolding process_items_step
    by (simp add: Cons feeds_process_item split: sum.splits option.splits)
qed

lemma seen_process_items:
  "seen s u = Some r \<Longrightarrow>
     seen (fst (process_items L E cfg feed_url new_items s todays)) u = Some r"
proof (induction new_items arbitrary: s todays)
  case Nil
  then show ?case by simp
next
  case (Cons it new_items)
  have "seen (fst (process_item L E cfg feed_url it s)) u = Some r"
    using Cons.prems by (rule seen_process_item)
  then show ?case
    unfolding process_items_step
    by (simp add: Cons.IH split: sum.splits option.splits)
qed

lemma log_process_items:
  "\<forall>it \<in> set new_items. dict_get it ''_uid'' \<noteq> Some u \<Longrightarrow>
     count_list (article_log (fst (process_items L E cfg feed_url new_items s todays))) u
       = count_list (article_log s) u"
proof (induction new_items arbitrary: s todays)
  case Nil
  show ?case by simp
next
  case (Cons it new_items)
  have 1: "count_list (article_log (fst (process_item L E cfg feed_url it s))) u
             = count_list (article_log s) u"
    using Cons.prems by (simp add: log_process_item split: option.splits)
  have 2: "\<forall>it \<in> set new_items. dict_get it ''_uid'' \<noteq> Some u"
    using Cons.prems by simp
  show ?case
    unfolding process_items_step
    by (simp add: Cons.IH [OF 2] 1 split: sum.splits option.splits)
qed

lemma check_new_items_uid:
  "it \<in> set (check_new_items L s feed_url feed_items) \<Longrightarrow>
     \<exists>it0 \<in> set feed_items. it = AList.update ''_uid'' (Some (compute_uid L it0)) it0
        \<and> seen s (compute_uid L it0) = None"
  by (induction feed_items) (auto simp: Let_def split: if_splits)

lemma check_new_items_excludes:
  assumes "seen s u = Some r"
  shows "\<forall>it \<in> set (check_new_items L s feed_url feed_items). dict_get it ''_uid'' \<noteq> Some u"
proof
  fix it
  assume "it \<in> set (check_new_items L s feed_url feed_items)"
  then obtain it0 where "it = AList.update ''_uid'' (Some (compute_uid L it0)) it0"
    and "seen s (compute_uid L it0) = None"
    using check_new_items_uid by blast
  then show "dict_get it ''_uid'' \<noteq> Some u"
    using assms by (auto simp: dict_get_update)
qed

lemma check_new_items_cong:
  "seen s' = seen s \<Longrightarrow> check_new_items L s' feed_url feed_items
     = check_new_items L s feed_url feed_items"
  by (induction feed_items) (simp_all add: Let_def)

text \<open>The state after the feed row has been written, and the items that are processed.\<close>

lemma run_feed_cases:
  obtains (fetch_failed) e where
      "fst (fetch_feed E feed_url (case feeds s feed_url of None \<Rightarrow> None | Some r \<Rightarrow> f_etag r)
              (case feeds s feed_url of None \<Rightarrow> None | Some r \<Rightarrow> f_last_modified r) (world s))
         = Inl e"
      "feeds (fst (run_feed L E cfg today feed_url s)) = feeds s"
      "seen (fst (run_feed L E cfg today feed_url s)) = seen s"
      "article_log (fst (run_feed L E cfg today feed_url s)) = article_log s"
    | (fetched) status headers content s2 new_items where
      "fst (fetch_feed E feed_url (case feeds s feed_url of None \<Rightarrow> None | Some r \<Rightarrow> f_etag r)
              (case feeds s feed_url of None \<Rightarrow> None | Some r \<Rightarrow> f_last_modified r) (world s))
         = Inr (status, headers, content)"
      "feeds s2 = (feeds s)(feed_url \<mapsto>
          (if status = 304
           then \<lparr>f_etag = (case feeds s feed_url of None \<Rightarrow> None | Some r \<Rightarrow> f_etag r),
                  f_last_modified =
                    (case feeds s feed_url of None \<Rightarrow> None | Some r \<Rightarrow> f_last_modified r),
                  f_last_checked_at = Some (fst (now_ts E (snd
                     (fetch_feed E feed_url
                        (case feeds s feed_url of None \<Rightarrow> None | Some r \<Rightarrow> f_etag r)
                        (case feeds s feed_url of None \<Rightarrow> None | Some r \<Rightarrow> f_last_modified r)
                        (world s)))))\<rparr>
           else \<lparr>f_etag = headers ''ETag'', f_last_modified = headers ''Last-Modified'',
                  f_last_checked_at = Some (fst (now_ts E (snd
                     (fetch_feed E feed_url
                        (case feeds s feed_url of None \<Rightarrow> None | Some r \<Rightarrow> f_etag r)
                        (case feeds s feed_url of None \<Rightarrow> None | Some r \<Rightarrow> f_last_modified r)
                        (world s)))))\<rparr>))"
      "seen s2 = seen s" "article_log s2 = article_log s"
      "\<forall>it \<in> set new_items. \<exists>uid. dict_get it ''_uid'' = Some uid \<and> seen s uid = None"
      "feeds (fst (run_feed L E cfg today feed_url s))
         = feeds (fst (process_items L E cfg feed_url new_items s2 []))"
      "seen (fst (run_feed L E cfg today feed_url s))
         = seen (fst (process_items L E cfg feed_url new_items s2 []))"
      "article_log (fst (run_feed L E cfg today feed_url s))
         = article_log (fst (process_items L E cfg feed_url new_items s2 []))"
proof -
  define etag where "etag = (case feeds s feed_url of None \<Rightarrow> None | Some r \<Rightarrow> f_etag r)"
  define last_mod where
    "last_mod = (case feeds s feed_url of None \<Rightarrow> None | Some r \<Rightarrow> f_last_modified r)"
  define ff where "ff = fetch_feed E feed_url etag last_mod (world s)"
  show thesis
  proof (cases "fst ff")
    case (Inl e)
    then have "fst (run_feed L E cfg today feed_url s) = s\<lparr>world := snd ff\<rparr>"
      by (simp add: run_feed_def Let_def case_prod_beta ff_def etag_def last_mod_def)
    then show ?thesis
      using Inl fetch_failed [of e] by (simp add: ff_def etag_def last_mod_def)
  next
    case (Inr r)
    obtain status headers content where r: "r = (status, headers, content)"
      by (cases r) auto
    define row where "row =
       (if status = 304
        then \<lparr>f_etag = etag, f_last_modified = last_mod,
               f_last_checked_at = Some (fst (now_ts E (snd ff)))\<rparr>
        else \<lparr>f_etag = headers ''ETag'', f_last_modified = headers ''Last-Modified'',
               f_last_checked_at = Some (fst (now_ts E (snd ff)))\<rparr>)"
    define s2 where
      "s2 = s\<lparr>feeds := (feeds s)(feed_url \<mapsto> row), world := snd (now_ts E (snd ff))\<rparr>"
    define parsed where
      "parsed = (if status = 304 then Inr [] else parse_feed L (or_empty content))"
    have rf: "run_feed L E cfg today feed_url s =
        (case parsed of
           Inl e \<Rightarrow> (s2, Inl e)
         | Inr items \<Rightarrow>
             (case process_items L E cfg feed_url (check_new_items L s2 feed_url items) s2 [] of
                (s3, Inl e) \<Rightarrow> (s3, Inl e)
              | (s3, Inr todays_items) \<Rightarrow>
                  (let (md_path, w4) = write_report E feed_url s3 todays_items today
                   in (s3\<lparr>world := w4\<rparr>, Inr (Some md_path)))))"
      using Inr r
      by (simp add: run_feed_def Let_def case_prod_beta ff_def [symmetric] etag_def [symmetric]
            last_mod_def [symmetric] row_def s2_def parsed_def cong: sum.case_cong)
    have s2: "feeds s2 = (feeds s)(feed_url \<mapsto> row)" "seen s2 = seen s"
      "article_log s2 = article_log s"
      by (simp_all add: s2_def)
    show ?thesis
    proof (cases parsed)
      case (Inl e)
      then have "fst (run_feed L E cfg today feed_url s) = s2"
        by (simp add: rf)
      then show ?thesis
        using fetched [of status headers content s2 "[]"] Inr r s2
        by (simp add: ff_def etag_def last_mod_def row_def)
    next
      case items: (Inr items)
      define new_items where "new_items = check_new_items L s2 feed_url items"
      have ni: "\<forall>it \<in> set new_items. \<exists>uid. dict_get it ''_uid'' = Some uid \<and> seen s uid = None"
      proof
        fix it
        assume "it \<in> set new_items"
        then obtain it0 where "it = AList.update ''_uid'' (Some (compute_uid L it0)) it0"
          and "seen s2 (compute_uid L it0) = None"
          unfolding new_items_def using check_new_items_uid by blast
        then show "\<exists>uid. dict_get it ''_uid'' = Some uid \<and> seen s uid = None"
          using s2 by (auto simp: dict_get_update)
      qed
      have "feeds (fst (run_feed L E cfg today feed_url s))
              = feeds (fst (process_items L E cfg feed_url new_items s2 []))
          \<and> seen (fst (run_feed L E cfg today feed_url s))
              = seen (fst (process_items L E cfg feed_url new_items s2 []))
          \<and> article_log (fst (run_feed L E cfg today feed_url s))
              = article_log (fst (process_items L E cfg feed_url new_items s2 []))"
        by (simp add: rf items new_items_def Let_def case_prod_beta
              split: prod.splits sum.splits)
      then show ?thesis
        using fetched [of status headers content s2 new_items] Inr r s2 ni
        by (simp add: ff_def etag_def last_mod_def row_def)
    qed
  qed
qed

lemma run_feed_keeps:
  assumes "seen s u = Some r"
  shows "seen (fst (run_feed L E cfg today feed_url s)) u = Some r
     \<and> count_list (article_log (fst (run_feed L E cfg today feed_url s))) u
         = count_list (article_log s) u"
proof (cases L E cfg today feed_url s rule: run_feed_cases)
  case (fetch_failed e)
  then show ?thesis
    using assms by simp
next
  case (fetched status headers content s2 new_items)
  have 1: "seen s2 u = Some r"
    using assms fetched by simp
  have 2: "\<forall>it \<in> set new_items. dict_get it ''_uid'' \<noteq> Some u"
    using fetched(5) assms by fastforce
  have 3: "count_list (article_log (fst (process_items L E cfg feed_url new_items s2 []))) u
             = count_list (article_log s) u"
    using log_process_items [OF 2, of L E cfg feed_url s2 "[]"] fetched(4) by simp
  have 4: "seen (fst (process_items L E cfg feed_url new_items s2 [])) u = Some r"
    using 1 by (rule seen_process_items)
  show ?thesis
    using 3 4 fetched(7,8) by simp
qed

lemma run_feeds_step:
  "run_feeds L E cfg today (feed_url # feed_urls) s paths =
     (case snd (run_feed L E cfg today feed_url s) of
        Inl e \<Rightarrow> (fst (run_feed L E cfg today feed_url s), Inl e)
      | Inr None \<Rightarrow> run_feeds L E cfg today feed_urls (fst (run_feed L E cfg today feed_url s)) paths
      | Inr (Some md_path) \<Rightarrow>
          run_feeds L E cfg today feed_urls (fst (run_feed L E cfg today feed_url s))
            (paths @ [md_path]))"
  by (simp split: prod.splits sum.splits option.splits)

lemma run_feeds_keeps:
  "seen s u = Some r \<Longrightarrow>
     seen (fst (run_feeds L E cfg today feed_urls s paths)) u = Some r
     \<and> count_list (article_log (fst (run_feeds L E cfg today feed_urls s paths))) u
         = count_list (article_log s) u"
proof (induction feed_urls arbitrary: s paths)
  case Nil
  then show ?case by simp
next
  case (Cons feed_url feed_urls)
  note k = run_feed_keeps [OF Cons.prems, of L E cfg today feed_url]
  show ?case
    unfolding run_feeds_step
    using Cons.IH [OF k [THEN conjunct1]] k
    by (simp split: sum.splits option.splits)
qed

lemma run_pipeline_keeps:
  assumes "seen s u = Some r"
  shows "seen (fst (run_pipeline L E cfg s)) u = Some r
     \<and> count_list (article_log (fst (run_pipeline L E cfg s))) u = count_list (article_log s) u"
proof (cases "cfg_feeds cfg = []")
  case True
  then show ?thesis
    using assms by (simp add: run_pipeline_def)
next
  case False
  have "seen (s\<lparr>world := snd (today_ymd E (world s))\<rparr>) u = Some r"
    using assms by simp
  from run_feeds_keeps [OF this] False show ?thesis
    by (simp add: run_pipeline_def case_prod_beta)
qed

lemma run_many_keeps:
  "seen s u = Some r \<Longrightarrow>
     seen (run_many L runs s) u = Some r
     \<and> count_list (article_log (run_many L runs s)) u = count_list (article_log s) u"
proof (induction runs arbitrary: s)
  case Nil
  then show ?case by simp
next
  case (Cons run runs)
  obtain E cfg where run: "run = (E, cfg)"
    by (cases run) auto
  note k = run_pipeline_keeps [OF Cons.prems, of L E cfg]
  show ?case
    using Cons.IH [OF k [THEN conjunct1]] k by (simp add: run)
qed

text \<open>
  C1, as the code has it. When a uid has a row in \<open>seen\<close>, no item with that uid is in
  the result of \<^verbatim>\<open>check_new_items\<close>; and through any sequence of runs that start from such
  a state the row stays as it is and the article step is not started for that uid: the
  number of its entries in \<open>article_log\<close> does not change.
\<close>

theorem seen_uid_not_extracted:
  assumes "seen s u = Some r"
  shows "(\<forall>it \<in> set (check_new_items L s feed_url feed_items). dict_get it ''_uid'' \<noteq> Some u)
     \<and> seen (fst (run_pipeline L E cfg s)) u = Some r
     \<and> count_list (article_log (fst (run_pipeline L E cfg s))) u = count_list (article_log s) u
     \<and> seen (run_many L runs s) u = Some r
     \<and> count_list (article_log (run_many L runs s)) u = count_list (article_log s) u"
  using check_new_items_excludes [OF assms] run_pipeline_keeps [OF assms] run_many_keeps [OF assms]
  by simp

text \<open>
  C9. When the fetch of the article page fails for an item, the pass gives no exception
  and no article, the article table is as before, the uid has a row in \<open>seen\<close> (the row
  written now, when it had none), and the loop goes on with the remaining items from the
  state that the pass left.
\<close>

theorem article_fetch_failure:
  assumes "dict_get it ''_uid'' = Some uid"
    and "fst (fetch_article E (dict_get it ''link'') (world s)) = None"
  shows "snd (process_item L E cfg feed_url it s) = Inr None
     \<and> articles (fst (process_item L E cfg feed_url it s)) = articles s
     \<and> seen (fst (process_item L E cfg feed_url it s)) uid
         = Some (case seen s uid of
                   None \<Rightarrow>
                     \<lparr>s_feed_url = feed_url, s_article_url = Some (or_empty (dict_get it ''link'')),
                      s_doi = dict_get it ''doi'', s_pub_date = dict_get it ''pub_date'',
                      s_first_seen_at = Some (fst (now_ts E
                          (snd (fetch_article E (dict_get it ''link'') (world s)))))\<rparr>
                 | Some r \<Rightarrow> r)
     \<and> process_items L E cfg feed_url (it # new_items) s todays
         = process_items L E cfg feed_url new_items (fst (process_item L E cfg feed_url it s)) todays"
proof -
  have p: "process_item L E cfg feed_url it s =
         (mark_seen E (s\<lparr>article_log := article_log s @ [uid],
                          world := snd (fetch_article E (dict_get it ''link'') (world s))\<rparr>)
            uid feed_url (or_empty (dict_get it ''link'')) (dict_get it ''doi'')
            (dict_get it ''pub_date''), Inr None)"
    using assms by (simp add: process_item_def Let_def case_prod_beta)
  show ?thesis
    by (simp add: p frame_mark_seen seen_mark_seen insert_or_ignore_at)
qed

text \<open>
  C4, as the code has it. When \<^verbatim>\<open>fetch_feed\<close> raises, the loop body leaves the feed table
  as it was. When it returns, the row of the feed is written before anything else: with
  the status 304 the validators read at the start and the new \<open>last_checked_at\<close>, with
  any other status the validators of the response headers and the new
  \<open>last_checked_at\<close>; the rest of the loop body does not change the feed table.
\<close>

theorem feed_cache_state:
  "(fst (fetch_feed E feed_url (case feeds s feed_url of None \<Rightarrow> None | Some r \<Rightarrow> f_etag r)
           (case feeds s feed_url of None \<Rightarrow> None | Some r \<Rightarrow> f_last_modified r) (world s))
      = Inl e
    \<longrightarrow> feeds (fst (run_feed L E cfg today feed_url s)) = feeds s)
   \<and> (fst (fetch_feed E feed_url (case feeds s feed_url of None \<Rightarrow> None | Some r \<Rightarrow> f_etag r)
           (case feeds s feed_url of None \<Rightarrow> None | Some r \<Rightarrow> f_last_modified r) (world s))
      = Inr (status, headers, content)
    \<longrightarrow> feeds (fst (run_feed L E cfg today feed_url s))
        = (feeds s)(feed_url \<mapsto>
          (if status = 304
           then \<lparr>f_etag = (case feeds s feed_url of None \<Rightarrow> None | Some r \<Rightarrow> f_etag r),
                  f_last_modified =
                    (case feeds s feed_url of None \<Rightarrow> None | Some r \<Rightarrow> f_last_modified r),
                  f_last_checked_at = Some (fst (now_ts E (snd
                     (fetch_feed E feed_url
                        (case feeds s feed_url of None \<Rightarrow> None | Some r \<Rightarrow> f_etag r)
                        (case feeds s feed_url of None \<Rightarrow> None | Some r \<Rightarrow> f_last_modified r)
                        (world s)))))\<rparr>
           else \<lparr>f_etag = headers ''ETag'', f_last_modified = headers ''Last-Modified'',
                  f_last_checked_at = Some (fst (now_ts E (snd
                     (fetch_feed E feed_url
                        (case feeds s feed_url of None \<Rightarrow> None | Some r \<Rightarrow> f_etag r)
                        (case feeds s feed_url of None \<Rightarrow> None | Some r \<Rightarrow> f_last_modified r)
                        (world s)))))\<rparr>)))"
proof (cases L E cfg today feed_url s rule: run_feed_cases)
  case (fetch_failed e')
  then show ?thesis by simp
next
  case (fetched status' headers' content' s2 new_items)
  then show ?thesis
    by (simp add: feeds_process_items)
qed

lemma ex_lib_fields:
  "html_unescape ex_dup_lib = (\<lambda>s. s)" "re_doi_feed ex_dup_lib = (\<lambda>s. None)"
  "soupify ex_dup_lib = soupify example_lib" "xml_root ex_dup_lib ''<rss>'' = Some ex_dup"
  by (simp_all add: ex_dup_lib_def example_lib_def)

lemma ex_xml_text_g1: "xml_text (Some ''g1'') = Some ''g1''"
  by (simp add: xml_text_def strip_def is_space_def)

lemma ex_dup_fields:
  "add_item ex_dup_lib (rss2_fields ex_dup_lib
     \<lparr>r_title = Some ''T'', r_dc_title = None, r_link = Some ''http://x/a'',
      r_guid = Some ''g1'', r_pubDate = None, r_dc_date = None, r_description = None\<rparr>) = ex_item"
  by (simp add: rss2_fields_def Let_def ex_xml_text ex_xml_text_g1 py_or_def ex_lib_fields
        add_item_def dict_get_def clean_text_def strip_def is_space_def ex_item_def)

lemma ex_dup_parsed: "parse_feed ex_dup_lib ''<rss>'' = Inr [ex_item, ex_item]"
  by (simp add: parse_feed_def ex_lib_fields parse_feed_root_def ex_dup_def ex_dup_fields)

lemma ex_item_uid: "compute_uid L ex_item = ''id:g1''"
  by (simp add: compute_uid_def ex_item_def dict_get_def)

lemma ex_fetch_article:
  "fetch_article example_env (Some ''http://x/a'') w = (Some ''<html>'', Suc w)"
  by (simp add: fetch_article_def example_env_def is_error_status_def)

lemma ex_fetch_feed:
  "fetch_feed example_env ''http://f/rss'' None None w
     = (Inr (200, (\<lambda>h. if h = ''ETag'' then Some ''e1'' else None), Some ''<rss>''), Suc w)"
  by (simp add: fetch_feed_def example_env_def is_error_status_def)

lemma ex_process_item:
  "dict_get it ''link'' = Some ''http://x/a'' \<Longrightarrow> dict_get it ''_uid'' = Some uid \<Longrightarrow>
     \<exists>na. snd (process_item ex_dup_lib example_env ex_cfg feed_url it s) = Inr (Some na)"
  by (simp add: process_item_def Let_def ex_fetch_article ex_lib_fields example_lib_def
        parse_jsonld_def jsonld_fields_def extract_article_fields_def case_prod_beta)

lemma log_process_items_ok:
  assumes "\<forall>it \<in> set new_items. \<exists>uid. dict_get it ''_uid'' = Some uid
              \<and> (\<forall>s. \<exists>x. snd (process_item L E cfg feed_url it s) = Inr x)"
  shows "article_log (fst (process_items L E cfg feed_url new_items s todays))
           = article_log s @ map (\<lambda>it. the (dict_get it ''_uid'')) new_items
       \<and> (\<exists>ts. snd (process_items L E cfg feed_url new_items s todays) = Inr ts)"
  using assms
proof (induction new_items arbitrary: s todays)
  case Nil
  show ?case by simp
next
  case (Cons it new_items)
  obtain uid where u: "dict_get it ''_uid'' = Some uid"
    and ok: "\<And>s. \<exists>x. snd (process_item L E cfg feed_url it s) = Inr x"
    using Cons.prems by auto
  obtain x where x: "snd (process_item L E cfg feed_url it s) = Inr x"
    using ok by blast
  have l: "article_log (fst (process_item L E cfg feed_url it s)) = article_log s @ [uid]"
    by (simp add: log_process_item u)
  have r: "\<forall>it \<in> set new_items. \<exists>uid. dict_get it ''_uid'' = Some uid
              \<and> (\<forall>s. \<exists>x. snd (process_item L E cfg feed_url it s) = Inr x)"
    using Cons.prems by simp
  show ?case
    unfolding process_items_step
    using Cons.IH [OF r] by (simp add: x l u split: option.splits)
qed

lemma ex_new_item_get:
  "dict_get ex_new_item ''_uid'' = Some ''id:g1''"
  "dict_get ex_new_item ''link'' = Some ''http://x/a''"
  by (simp_all add: ex_new_item_def ex_item_def dict_get_def)

lemma ex_check_new:
  "seen s = Map.empty \<Longrightarrow>
     check_new_items ex_dup_lib s feed_url [ex_item, ex_item] = [ex_new_item, ex_new_item]"
  by (simp add: ex_item_uid Let_def) (simp add: ex_item_def ex_new_item_def)

lemma ex_process_items:
  "article_log (fst (process_items ex_dup_lib example_env ex_cfg feed_url
                       [ex_new_item, ex_new_item] s []))
     = article_log s @ [''id:g1'', ''id:g1'']
   \<and> (\<exists>ts. snd (process_items ex_dup_lib example_env ex_cfg feed_url
                       [ex_new_item, ex_new_item] s []) = Inr ts)"
proof -
  have "\<forall>it \<in> set [ex_new_item, ex_new_item]. \<exists>uid. dict_get it ''_uid'' = Some uid
          \<and> (\<forall>s. \<exists>x. snd (process_item ex_dup_lib example_env ex_cfg feed_url it s) = Inr x)"
    using ex_process_item [OF ex_new_item_get(2) ex_new_item_get(1)]
    by (simp add: ex_new_item_get) blast
  from log_process_items_ok [OF this, of s "[]"] show ?thesis
    by (simp add: ex_new_item_get)
qed

lemma ex_empty_fields:
  "feeds ex_empty = Map.empty" "seen ex_empty = Map.empty" "articles ex_empty = Map.empty"
  "world ex_empty = 0" "article_log ex_empty = []"
  by (simp_all add: ex_empty_def)

lemma ex_run_feed:
  "article_log (fst (run_feed ex_dup_lib example_env ex_cfg today ''http://f/rss''
                       (ex_empty\<lparr>world := w\<rparr>))) = [''id:g1'', ''id:g1'']
   \<and> (\<exists>p. snd (run_feed ex_dup_lib example_env ex_cfg today ''http://f/rss''
                       (ex_empty\<lparr>world := w\<rparr>)) = Inr p)"
proof -
  define s2 where "s2 = ex_empty\<lparr>feeds := [''http://f/rss'' \<mapsto>
      \<lparr>f_etag = Some ''e1'', f_last_modified = None,
       f_last_checked_at = Some ''2024-01-01T00:00:00+08:00''\<rparr>], world := Suc (Suc w)\<rparr>"
  have e: "seen s2 = Map.empty" "article_log s2 = []"
    by (simp_all add: s2_def ex_empty_fields)
  have n: "now_ts example_env v = (''2024-01-01T00:00:00+08:00'', Suc v)" for v
    by (simp add: example_env_def)
  have c: "check_new_items ex_dup_lib s2 ''http://f/rss'' [ex_item, ex_item]
             = [ex_new_item, ex_new_item]"
    using e(1) by (rule ex_check_new)
  have rf: "run_feed ex_dup_lib example_env ex_cfg today ''http://f/rss'' (ex_empty\<lparr>world := w\<rparr>)
      = (case process_items ex_dup_lib example_env ex_cfg ''http://f/rss''
                [ex_new_item, ex_new_item] s2 [] of
           (s3, Inl e) \<Rightarrow> (s3, Inl e)
         | (s3, Inr todays_items) \<Rightarrow>
             (case write_report example_env ''http://f/rss'' s3 todays_items today of
                (md_path, w4) \<Rightarrow> (s3\<lparr>world := w4\<rparr>, Inr (Some md_path))))"
    by (simp add: run_feed_def Let_def ex_empty_fields ex_fetch_feed n or_empty_def ex_dup_parsed
          s2_def [symmetric] c del: check_new_items.simps process_items.simps)
  obtain ts where ts: "snd (process_items ex_dup_lib example_env ex_cfg ''http://f/rss''
                [ex_new_item, ex_new_item] s2 []) = Inr ts"
    using ex_process_items by blast
  show ?thesis
    using ex_process_items [of "''http://f/rss''" s2] ts
    by (simp add: rf e case_prod_beta del: process_items.simps)
qed

text \<open>
  C1 as stated fails within one run: the feed body has two entries with the guid \<open>g1\<close>,
  no row of \<open>seen\<close> exists when \<^verbatim>\<open>check_new_items\<close> runs, both entries are new, and the
  article step is started twice for the uid \<open>id:g1\<close>.
\<close>

theorem duplicate_entry_extracted_twice:
  "count_list (article_log (fst (run_pipeline ex_dup_lib example_env ex_cfg ex_empty))) ''id:g1'' = 2"
proof -
  have t: "today_ymd example_env v = (''2024-01-01'', Suc v)" for v
    by (simp add: example_env_def)
  obtain s' p where rf: "run_feed ex_dup_lib example_env ex_cfg ''2024-01-01'' ''http://f/rss''
                       (ex_empty\<lparr>world := Suc 0\<rparr>) = (s', Inr p)"
    and l: "article_log s' = [''id:g1'', ''id:g1'']"
    using ex_run_feed [of "''2024-01-01''" "Suc 0"] by (metis prod.collapse)
  have c: "cfg_feeds ex_cfg = [''http://f/rss'']"
    by (simp add: ex_cfg_def)
  have "article_log (fst (run_pipeline ex_dup_lib example_env ex_cfg ex_empty))
          = [''id:g1'', ''id:g1'']"
    by (simp add: run_pipeline_def c t ex_empty_fields rf l split: option.splits)
  then show ?thesis
    by simp
qed

theorem seen_uid_not_extracted_witness:
  "seen ex_seen ''id:g1'' = Some ex_seen_row
   \<and> check_new_items ex_dup_lib ex_seen ''http://f/rss'' [ex_item, ex_item] = []
   \<and> seen (fst (run_pipeline ex_dup_lib example_env ex_cfg ex_seen)) ''id:g1'' = Some ex_seen_row
   \<and> count_list (article_log (fst (run_pipeline ex_dup_lib example_env ex_cfg ex_seen))) ''id:g1''
       = 0
   \<and> seen (run_many ex_dup_lib [(example_env, ex_cfg), (example_env, ex_cfg)] ex_seen) ''id:g1''
       = Some ex_seen_row
   \<and> count_list (article_log
         (run_many ex_dup_lib [(example_env, ex_cfg), (example_env, ex_cfg)] ex_seen)) ''id:g1''
       = 0"
proof -
  have s: "seen ex_seen ''id:g1'' = Some ex_seen_row"
    by (simp add: ex_seen_def)
  have l: "article_log ex_seen = []"
    by (simp add: ex_seen_def ex_empty_fields)
  have c: "check_new_items ex_dup_lib ex_seen ''http://f/rss'' [ex_item, ex_item] = []"
    by (simp add: ex_item_uid s)
  show ?thesis
    using seen_uid_not_extracted [OF s, of ex_dup_lib "''http://f/rss''" "[ex_item, ex_item]"
        example_env ex_cfg "[(example_env, ex_cfg), (example_env, ex_cfg)]"]
    by (simp add: s l c del: run_many.simps check_new_items.simps)
qed

theorem article_fetch_failure_witness:
  "dict_get ex_bad_item ''_uid'' = Some ''id:g2''
   \<and> fst (fetch_article example_env (dict_get ex_bad_item ''link'') (world ex_empty)) = None
   \<and> snd (process_item example_lib example_env ex_cfg ''http://f/rss'' ex_bad_item ex_empty)
       = Inr None
   \<and> articles (fst (process_item example_lib example_env ex_cfg ''http://f/rss'' ex_bad_item
                      ex_empty)) = Map.empty
   \<and> seen (fst (process_item example_lib example_env ex_cfg ''http://f/rss'' ex_bad_item
                  ex_empty)) ''id:g2''
       = Some \<lparr>s_feed_url = ''http://f/rss'', s_article_url = Some ''http://x/missing'',
               s_doi = None, s_pub_date = Some ''2024-01-01'',
               s_first_seen_at = Some ''2024-01-01T00:00:00+08:00''\<rparr>
   \<and> process_items example_lib example_env ex_cfg ''http://f/rss'' [ex_bad_item] ex_empty []
       = (fst (process_item example_lib example_env ex_cfg ''http://f/rss'' ex_bad_item ex_empty),
          Inr [])"
proof -
  have u: "dict_get ex_bad_item ''_uid'' = Some ''id:g2''"
    and g: "dict_get ex_bad_item ''link'' = Some ''http://x/missing''"
      "dict_get ex_bad_item ''doi'' = None" "dict_get ex_bad_item ''pub_date'' = Some ''2024-01-01''"
    by (simp_all add: ex_bad_item_def dict_get_def)
  have f: "fetch_article example_env (Some ''http://x/missing'') w = (None, Suc w)" for w
    by (simp add: fetch_article_def example_env_def)
  have f': "fst (fetch_article example_env (dict_get ex_bad_item ''link'') (world ex_empty)) = None"
    by (simp add: g f)
  have n: "now_ts example_env v = (''2024-01-01T00:00:00+08:00'', Suc v)" for v
    by (simp add: example_env_def)
  show ?thesis
    using article_fetch_failure [OF u f', of example_lib ex_cfg "''http://f/rss''" "[]" "[]"]
    by (simp add: u g f n ex_empty_fields or_empty_def del: process_items.simps(2))
qed

lemma ex_cached_fields:
  "feeds ex_cached ''http://f/down'' = Some ex_feed_row"
  "feeds ex_cached ''http://f/same'' = Some ex_feed_row"
  "feeds ex_cached ''http://f/rss'' = None"
  "world ex_cached = 0"
  by (simp_all add: ex_cached_def ex_empty_fields)

lemma ex_feed_row_fields: "f_etag ex_feed_row = Some ''e0''" "f_last_modified ex_feed_row = None"
  by (simp_all add: ex_feed_row_def)

lemma ex_fetch_feed_down:
  "fetch_feed example_env ''http://f/down'' etag last_mod w = (Inl RequestException, Suc w)"
  by (simp add: fetch_feed_def example_env_def Let_def)

lemma ex_fetch_feed_same:
  "fetch_feed example_env ''http://f/same'' etag last_mod w = (Inr (304, (\<lambda>h. None), None), Suc w)"
  by (simp add: fetch_feed_def example_env_def Let_def)

lemma ex_fetch_feed_rss:
  "fetch_feed example_env ''http://f/rss'' etag last_mod w
     = (Inr (200, (\<lambda>h. if h = ''ETag'' then Some ''e1'' else None), Some ''<rss>''), Suc w)"
  by (simp add: fetch_feed_def example_env_def Let_def is_error_status_def)

theorem feed_cache_state_witness:
  "feeds (fst (run_feed ex_dup_lib example_env ex_cfg ''2024-01-01'' ''http://f/down'' ex_cached))
     = feeds ex_cached
   \<and> feeds (fst (run_feed ex_dup_lib example_env ex_cfg ''2024-01-01'' ''http://f/same'' ex_cached))
     = (feeds ex_cached)(''http://f/same'' \<mapsto>
          \<lparr>f_etag = Some ''e0'', f_last_modified = None,
           f_last_checked_at = Some ''2024-01-01T00:00:00+08:00''\<rparr>)
   \<and> feeds (fst (run_feed ex_dup_lib example_env ex_cfg ''2024-01-01'' ''http://f/rss'' ex_cached))
     = (feeds ex_cached)(''http://f/rss'' \<mapsto>
          \<lparr>f_etag = Some ''e1'', f_last_modified = None,
           f_last_checked_at = Some ''2024-01-01T00:00:00+08:00''\<rparr>)"
proof -
  have n: "now_ts example_env v = (''2024-01-01T00:00:00+08:00'', Suc v)" for v
    by (simp add: example_env_def)
  have a: "feeds (fst (run_feed ex_dup_lib example_env ex_cfg ''2024-01-01'' ''http://f/down''
                         ex_cached)) = feeds ex_cached"
    by (rule feed_cache_state [where e = RequestException, THEN conjunct1, THEN mp])
       (simp add: ex_fetch_feed_down)
  have b: "feeds (fst (run_feed ex_dup_lib example_env ex_cfg ''2024-01-01'' ''http://f/same''
                         ex_cached))
     = (feeds ex_cached)(''http://f/same'' \<mapsto>
          \<lparr>f_etag = Some ''e0'', f_last_modified = None,
           f_last_checked_at = Some ''2024-01-01T00:00:00+08:00''\<rparr>)"
    using feed_cache_state [THEN conjunct2, THEN mp, of example_env "''http://f/same''" ex_cached
        304 "\<lambda>h. None" None ex_dup_lib ex_cfg "''2024-01-01''"]
    by (simp add: ex_fetch_feed_same ex_cached_fields ex_feed_row_fields n)
  have c: "feeds (fst (run_feed ex_dup_lib example_env ex_cfg ''2024-01-01'' ''http://f/rss''
                         ex_cached))
     = (feeds ex_cached)(''http://f/rss'' \<mapsto>
          \<lparr>f_etag = Some ''e1'', f_last_modified = None,
           f_last_checked_at = Some ''2024-01-01T00:00:00+08:00''\<rparr>)"
    using feed_cache_state [THEN conjunct2, THEN mp, of example_env "''http://f/rss''" ex_cached
        200 "\<lambda>h. if h = ''ETag'' then Some ''e1'' else None" "Some ''<rss>''" ex_dup_lib ex_cfg
        "''2024-01-01''"]
    by (simp add: ex_fetch_feed_rss ex_cached_fields n)
  show ?thesis
    using a b c by simp
qed

text \<open>
  C4 as stated fails: the fetch of the one feed of the run raises, the run ends without
  a report, and the tables are as before; the row of the feed still has the
  \<open>last_checked_at\<close> of the day before.
\<close>

theorem failed_fetch_leaves_feed_row:
  "run_pipeline ex_dup_lib example_env ex_cfg_down ex_cached = (ex_cached\<lparr>world := 2\<rparr>, Inr [])
   \<and> feeds ex_cached ''http://f/down''
       = Some \<lparr>f_etag = Some ''e0'', f_last_modified = None,
               f_last_checked_at = Some ''2023-12-31T00:00:00+08:00''\<rparr>
   \<and> fst (now_ts example_env 2) = ''2024-01-01T00:00:00+08:00''"
proof -
  have t: "today_ymd example_env v = (''2024-01-01'', Suc v)" for v
    by (simp add: example_env_def)
  have r: "run_feed ex_dup_lib example_env ex_cfg_down today ''http://f/down'' (ex_cached\<lparr>world := w\<rparr>)
             = (ex_cached\<lparr>world := Suc w\<rparr>, Inr None)" for today w
    by (simp add: run_feed_def Let_def ex_fetch_feed_down)
  have c: "cfg_feeds ex_cfg_down = [''http://f/down'']"
    by (simp add: ex_cfg_down_def)
  have n: "now_ts example_env v = (''2024-01-01T00:00:00+08:00'', Suc v)" for v
    by (simp add: example_env_def)
  show ?thesis
    by (simp add: run_pipeline_def c t r n ex_cached_fields ex_feed_row_def numeral_2_eq_2)
qed

end
